theory Spec2Isabelle
  imports Complex_Main "HOL-Library.Sublist"
begin

section \<open>Text primitives\<close>

text \<open>
  Text is a list of 8-bit characters, read as code points below 256. Python integers are
  \<open>int\<close>, list lengths and counts are \<open>nat\<close>. Python floats are modelled as real
  numbers, except in the structural score: there the exact amount of an increment is
  at issue, and the increments are added in IEEE double arithmetic as the code adds them.
\<close>

text \<open>\<open>str.isspace\<close> on one character (code points below 256).\<close>

definition py_isspace :: "char \<Rightarrow> bool" where
  "py_isspace c =
     (let n = (of_char c :: nat)
      in (9 \<le> n \<and> n \<le> 13) \<or> (28 \<le> n \<and> n \<le> 32) \<or> n = 133 \<or> n = 160)"

text \<open>\<open>str.lower\<close>: the upper-case letters of ASCII and Latin-1 move up by 32.\<close>

definition py_lower_char :: "char \<Rightarrow> char" where
  "py_lower_char c =
     (let n = (of_char c :: nat)
      in if (65 \<le> n \<and> n \<le> 90) \<or> (192 \<le> n \<and> n \<le> 214) \<or> (216 \<le> n \<and> n \<le> 222)
         then char_of (n + 32) else c)"

definition lower :: "string \<Rightarrow> string" where
  "lower s = map py_lower_char s"

text \<open>The operator \<open>k in s\<close> on strings: \<open>k\<close> occurs in \<open>s\<close> as a contiguous run.\<close>

fun py_in :: "string \<Rightarrow> string \<Rightarrow> bool" where
  "py_in k [] = (k = [])"
| "py_in k (c # cs) = (prefix k (c # cs) \<or> py_in k cs)"

text \<open>
  \<open>str.split()\<close> without argument: the maximal runs of non-whitespace characters.
  The first argument of \<open>split_from\<close> is the word read so far.
\<close>

fun split_from :: "string \<Rightarrow> string \<Rightarrow> string list" where
  "split_from w [] = (if w = [] then [] else [w])"
| "split_from w (c # cs) =
     (if py_isspace c
      then (if w = [] then split_from [] cs else w # split_from [] cs)
      else split_from (w @ [c]) cs)"

definition py_split :: "string \<Rightarrow> string list" where
  "py_split s = split_from [] s"

text \<open>\<open>str.strip()\<close>: whitespace removed at both ends.\<close>

definition py_strip :: "string \<Rightarrow> string" where
  "py_strip s = rev (dropWhile py_isspace (rev (dropWhile py_isspace s)))"

text \<open>\<open>any(k in s for k in ks)\<close>.\<close>

definition any_in :: "string list \<Rightarrow> string \<Rightarrow> bool" where
  "any_in ks s = list_ex (\<lambda>k. py_in k s) ks"

section \<open>Data model\<close>

text \<open>
  \<open>DocumentSection\<close>, \<open>ProcessedDocument\<close> (document\_processor.py), \<open>PersonaProfile\<close>,
  \<open>JobRequirements\<close> (persona\_analyzer.py), \<open>ScoredSection\<close>, \<open>SubSection\<close>
  (relevance\_scorer.py). The Python field \<open>keywords\<close> is \<open>persona_keywords\<close> and the
  field \<open>section\<close> is \<open>section_of\<close> here, both names being reserved words. The metadata
  dictionary of a document is not read by the scorer and is left out.
\<close>

record DocumentSection =
  title :: string
  content :: string
  page_number :: int
  section_number :: "string option"
  start_position :: "int option"
  end_position :: "int option"

record ProcessedDocument =
  filename :: string
  total_pages :: int
  sections :: "DocumentSection list"

record PersonaProfile =
  role :: string
  expertise_domains :: "string list"
  focus_areas :: "string list"
  skill_level :: string
  persona_keywords :: "string set"

record JobRequirements =
  primary_goal :: string
  information_needs :: "string list"
  deliverable_type :: string
  priority_keywords :: "string set"
  success_criteria :: "string list"

record ScoredSection =
  document :: string
  section_of :: DocumentSection
  relevance_score :: real
  persona_alignment :: real
  job_alignment :: real
  importance_rank :: int

record SubSection =
  sub_document :: string
  sub_page_number :: int
  refined_text :: string
  parent_section :: string
  sub_relevance_score :: real

datatype py_error = ZeroDivisionError

section \<open>Section scorer: the keyword component\<close>

definition calculate_keyword_score ::
  "DocumentSection \<Rightarrow> PersonaProfile \<Rightarrow> JobRequirements \<Rightarrow> real" where
  "calculate_keyword_score s persona job =
     (let content_lower = lower (content s);
          title_lower = lower (title s);
          all_keywords = persona_keywords persona \<union> priority_keywords job
      in if all_keywords = {} then 0
         else
           let content_matches = card {keyword \<in> all_keywords. py_in keyword content_lower};
               title_matches = card {keyword \<in> all_keywords. py_in keyword title_lower};
               total_matches = content_matches + title_matches * 2;
               content_words = length (py_split content_lower)
           in if content_words = 0 then 0
              else min (real total_matches / sqrt (real content_words)
                          / sqrt (real (card all_keywords))) 1)"

text \<open>
  The keyword component as the specification words it, for comparison with the code:
  every occurrence of a keyword counts.
\<close>

fun count_occurrences :: "string \<Rightarrow> string \<Rightarrow> nat" where
  "count_occurrences k [] = (if k = [] then 1 else 0)"
| "count_occurrences k (c # cs) = (if prefix k (c # cs) then 1 else 0) + count_occurrences k cs"

definition keyword_score_as_specified ::
  "DocumentSection \<Rightarrow> PersonaProfile \<Rightarrow> JobRequirements \<Rightarrow> real" where
  "keyword_score_as_specified s persona job =
     (let K = persona_keywords persona \<union> priority_keywords job;
          content_matches = (\<Sum>k\<in>K. count_occurrences k (lower (content s)));
          title_matches = (\<Sum>k\<in>K. count_occurrences k (lower (title s)))
      in if K = {} then 0
         else min 1 (real (content_matches + 2 * title_matches)
                       / (sqrt (real (length (py_split (content s)))) * sqrt (real (card K)))))"

section \<open>Section scorer: the structural component\<close>

text \<open>
  The built-in conversion \<open>float(str)\<close> is a parameter of the model: \<open>None\<close> stands
  for its \<open>ValueError\<close>, and the value may be infinite or not a number.
\<close>

datatype py_float = Finite real | PosInf | NegInf | NaN

fun float_le :: "py_float \<Rightarrow> real \<Rightarrow> bool" where
  "float_le (Finite x) r = (x \<le> r)"
| "float_le NegInf r = True"
| "float_le PosInf r = False"
| "float_le NaN r = False"

definition high_value_terms :: "string list" where
  "high_value_terms =
     [''abstract'', ''introduction'', ''conclusion'', ''summary'', ''results'',
      ''methodology'', ''methods'', ''discussion'', ''findings'', ''analysis'']"

text \<open>
  IEEE 754 double arithmetic, as the structural score uses it. A double is the real number
  it denotes. \<open>double_round\<close> rounds a real to the nearest number with a significand of
  53 bits, ties to the even significand: \<open>round_significand\<close> scales the positive number
  into the interval from \<open>2^52\<close> to \<open>2^53\<close>, where the doubles are the integers, and
  rounds there. The exponent is not bounded, so the result is the double of the code for
  magnitudes between \<open>2^-1022\<close> and \<open>2^1024\<close>; the sums of this score lie
  between 0.1 and 0.8. A float literal such as \<open>0.3\<close> is \<open>double_round 0.3\<close>, and the sum
  \<open>x + y\<close> of two doubles is \<open>double_add x y\<close>.
\<close>

definition round_half_even :: "real \<Rightarrow> int" where
  "round_half_even x =
     (let f = \<lfloor>x\<rfloor>; r = x - of_int f
      in if r < 1 / 2 then f else if 1 / 2 < r then f + 1 else if even f then f else f + 1)"

fun round_significand :: "nat \<Rightarrow> real \<Rightarrow> real" where
  "round_significand fuel x =
     (if fuel = 0 then x
      else if x < 2 ^ 52 then round_significand (fuel - 1) (2 * x) / 2
      else if 2 ^ 53 \<le> x then 2 * round_significand (fuel - 1) (x / 2)
      else of_int (round_half_even x))"

declare round_significand.simps [simp del]

definition double_round :: "real \<Rightarrow> real" where
  "double_round x =
     (if x = 0 then 0
      else if 0 < x then round_significand 2200 x
      else - round_significand 2200 (- x))"

definition double_add :: "real \<Rightarrow> real \<Rightarrow> real" where
  "double_add x y = double_round (x + y)"

text \<open>The loop over the high-value terms: the first term found adds 0.3 and ends the loop.\<close>

fun add_first_hit :: "real \<Rightarrow> string list \<Rightarrow> string \<Rightarrow> real" where
  "add_first_hit score [] title_lower = score"
| "add_first_hit score (hv_term # terms) title_lower =
     (if py_in hv_term title_lower then double_add score (double_round 0.3)
      else add_first_hit score terms title_lower)"

text \<open>\<open>section_number.split('.')[0]\<close>: the text before the first dot.\<close>

definition first_component :: "string \<Rightarrow> string" where
  "first_component num = takeWhile (\<lambda>c. c \<noteq> CHR ''.'') num"

definition calculate_structural_score ::
  "(string \<Rightarrow> py_float option) \<Rightarrow> DocumentSection \<Rightarrow> real" where
  "calculate_structural_score to_float s =
     (let title_lower = lower (title s);
          score1 = add_first_hit 0 high_value_terms title_lower;
          score2 =
            (case section_number s of
               None \<Rightarrow> score1
             | Some num \<Rightarrow>
                 if num = [] then score1
                 else (case to_float (first_component num) of
                         None \<Rightarrow> score1
                       | Some first_num \<Rightarrow>
                           if float_le first_num 3 then double_add score1 (double_round 0.2)
                           else score1));
          content_length = length (py_split (content s));
          score3 =
            (if 50 \<le> content_length \<and> content_length \<le> 500
             then double_add score2 (double_round 0.2)
             else if content_length > 500 then double_add score2 (double_round 0.1)
             else score2);
          score4 =
            (if page_number s \<le> 3 then double_add score3 (double_round 0.1) else score3)
      in min score4 1)"

section \<open>Section scorer: persona and job alignment\<close>

definition domain_keywords_table :: "(string \<times> string list) list" where
  "domain_keywords_table =
     [(''computer_science'',
         [''algorithm'', ''programming'', ''software'', ''computing'', ''data'', ''neural'',
          ''machine'']),
      (''biology'', [''gene'', ''protein'', ''cell'', ''organism'', ''molecular'', ''genetic'']),
      (''chemistry'',
         [''reaction'', ''compound'', ''molecule'', ''synthesis'', ''organic'', ''kinetics'']),
      (''finance'', [''revenue'', ''profit'', ''investment'', ''market'', ''financial'']),
      (''medicine'', [''patient'', ''treatment'', ''clinical'', ''therapeutic'', ''medical'']),
      (''research'', [''study'', ''analysis'', ''methodology'', ''experiment'', ''literature'']),
      (''education'', [''learning'', ''curriculum'', ''academic'', ''study'']),
      (''business'', [''strategy'', ''management'', ''operations'', ''marketing''])]"

text \<open>\<open>domain_keywords.get(domain, [])\<close>.\<close>

definition get_domain_keywords :: "string \<Rightarrow> string list" where
  "get_domain_keywords domain =
     (case map_of domain_keywords_table domain of Some ks \<Rightarrow> ks | None \<Rightarrow> [])"

text \<open>The number of a domain's keywords found in the body or in the title.\<close>

definition domain_matches :: "string \<Rightarrow> string \<Rightarrow> string \<Rightarrow> nat" where
  "domain_matches domain content_lower title_lower =
     length (filter (\<lambda>keyword. py_in keyword content_lower \<or> py_in keyword title_lower)
               (get_domain_keywords domain))"

fun domain_loop :: "real \<Rightarrow> string list \<Rightarrow> string \<Rightarrow> string \<Rightarrow> real" where
  "domain_loop score [] content_lower title_lower = score"
| "domain_loop score (domain # domains) content_lower title_lower =
     domain_loop
       (if domain_matches domain content_lower title_lower > 0 then score + 0.3 else score)
       domains content_lower title_lower"

text \<open>
  The loop over focus areas and the one over information needs have the same body: a
  phrase adds 0.2 when one of its words is found in the body or in the title.
\<close>

definition phrase_hit :: "string \<Rightarrow> string \<Rightarrow> string \<Rightarrow> bool" where
  "phrase_hit phrase content_lower title_lower =
     list_ex (\<lambda>word. py_in word content_lower \<or> py_in word title_lower)
       (py_split (lower phrase))"

fun phrase_loop :: "real \<Rightarrow> string list \<Rightarrow> string \<Rightarrow> string \<Rightarrow> real" where
  "phrase_loop score [] content_lower title_lower = score"
| "phrase_loop score (phrase # phrases) content_lower title_lower =
     phrase_loop
       (if phrase_hit phrase content_lower title_lower then score + 0.2 else score)
       phrases content_lower title_lower"

definition calculate_persona_alignment :: "DocumentSection \<Rightarrow> PersonaProfile \<Rightarrow> real" where
  "calculate_persona_alignment s persona =
     (let content_lower = lower (content s);
          title_lower = lower (title s);
          score1 = domain_loop 0 (expertise_domains persona) content_lower title_lower;
          score2 = phrase_loop score1 (focus_areas persona) content_lower title_lower;
          score3 =
            (if skill_level persona = ''expert''
             then (if any_in [''methodology'', ''analysis'', ''framework'', ''model'',
                              ''algorithm''] content_lower
                   then score2 + 0.1 else score2)
             else if skill_level persona = ''beginner''
             then (if any_in [''introduction'', ''overview'', ''basic'', ''fundamental'',
                              ''concept''] content_lower
                   then score2 + 0.1 else score2)
             else score2)
      in min score3 1)"

definition deliverable_keywords :: "(string \<times> string list) list" where
  "deliverable_keywords =
     [(''analysis'', [''analysis'', ''analyze'', ''examination'', ''evaluation'']),
      (''synthesis'', [''summary'', ''overview'', ''compilation'', ''integration'']),
      (''review'', [''review'', ''survey'', ''literature'', ''comprehensive'']),
      (''preparation'', [''methodology'', ''approach'', ''framework'', ''procedure'']),
      (''identification'', [''key'', ''important'', ''significant'', ''main'']),
      (''learning'', [''concept'', ''principle'', ''fundamental'', ''theory''])]"

definition calculate_job_alignment :: "DocumentSection \<Rightarrow> JobRequirements \<Rightarrow> real" where
  "calculate_job_alignment s job =
     (let content_lower = lower (content s);
          title_lower = lower (title s);
          goal_words = py_split (lower (primary_goal job));
          goal_matches =
            length (filter (\<lambda>word. py_in word content_lower \<or> py_in word title_lower)
                      goal_words);
          score1 = (if goal_matches > 0 then 0.4 else 0);
          score2 = phrase_loop score1 (information_needs job) content_lower title_lower;
          score3 =
            (case map_of deliverable_keywords (deliverable_type job) of
               None \<Rightarrow> score2
             | Some kws \<Rightarrow> if any_in kws content_lower then score2 + 0.2 else score2)
      in min score3 1)"

section \<open>Section scorer: the semantic component and the ranking\<close>

text \<open>
  The TF-IDF vectorizer of scikit-learn is a collaborator, taken as a parameter. The
  scorer object keeps the vectorizer in a field and refits it on every call, so the
  vectorizer's state \<open>'v\<close> is threaded through \<open>score_sections\<close>.
  \<open>fit_transform\<close> returns the refitted state and the matrix, or no matrix when it
  raises; \<open>query_similarity v q m i\<close> transforms the query text \<open>q\<close> with the fitted
  vectorizer and returns its cosine similarity with row \<open>i\<close> of the matrix, or \<open>None\<close>
  when anything in that raises.
\<close>

record ('v, 'm) tfidf =
  fit_transform :: "'v \<Rightarrow> string list \<Rightarrow> 'v \<times> 'm option"
  query_similarity :: "'v \<Rightarrow> string \<Rightarrow> 'm \<Rightarrow> nat \<Rightarrow> real option"

record scorer_weights =
  keyword_match :: real
  semantic_similarity :: real
  structural_importance :: real
  persona_alignment_weight :: real
  job_alignment_weight :: real

definition weights :: scorer_weights where
  "weights =
     \<lparr>keyword_match = 0.3, semantic_similarity = 0.2, structural_importance = 0.2,
      persona_alignment_weight = 0.15, job_alignment_weight = 0.15\<rparr>"

text \<open>\<open>sep.join(xs)\<close>.\<close>

fun py_join :: "string \<Rightarrow> string list \<Rightarrow> string" where
  "py_join sep [] = []"
| "py_join sep [x] = x"
| "py_join sep (x # y # ys) = x @ sep @ py_join sep (y # ys)"

definition query_text :: "PersonaProfile \<Rightarrow> JobRequirements \<Rightarrow> string" where
  "query_text persona job =
     role persona @ '' '' @ py_join '' '' (focus_areas persona) @ '' ''
       @ primary_goal job @ '' '' @ py_join '' '' (information_needs job)"

definition calculate_semantic_score ::
  "('v, 'm) tfidf \<Rightarrow> 'v \<Rightarrow> DocumentSection \<Rightarrow> PersonaProfile \<Rightarrow> JobRequirements
     \<Rightarrow> 'm option \<Rightarrow> nat \<Rightarrow> real" where
  "calculate_semantic_score tf v s persona job tfidf_matrix section_index =
     (case tfidf_matrix of
        None \<Rightarrow> 0
      | Some m \<Rightarrow>
          (case query_similarity tf v (query_text persona job) m section_index of
             None \<Rightarrow> 0
           | Some similarity \<Rightarrow> similarity))"

text \<open>The weighted sum of the five component scores.\<close>

definition combine :: "real \<Rightarrow> real \<Rightarrow> real \<Rightarrow> real \<Rightarrow> real \<Rightarrow> real" where
  "combine keyword_score semantic_score structural_score persona_al job_al =
     keyword_match weights * keyword_score
       + semantic_similarity weights * semantic_score
       + structural_importance weights * structural_score
       + persona_alignment_weight weights * persona_al
       + job_alignment_weight weights * job_al"

text \<open>The body of the scoring loop for the section at index \<open>i\<close> of the worklist.\<close>

definition score_one ::
  "('v, 'm) tfidf \<Rightarrow> (string \<Rightarrow> py_float option) \<Rightarrow> 'v \<Rightarrow> 'm option
     \<Rightarrow> PersonaProfile \<Rightarrow> JobRequirements \<Rightarrow> nat \<times> string \<times> DocumentSection
     \<Rightarrow> ScoredSection" where
  "score_one tf to_float v tfidf_matrix persona job entry =
     (case entry of (i, doc_name, s) \<Rightarrow>
        let keyword_score = calculate_keyword_score s persona job;
            semantic_score = calculate_semantic_score tf v s persona job tfidf_matrix i;
            structural_score = calculate_structural_score to_float s;
            persona_al = calculate_persona_alignment s persona;
            job_al = calculate_job_alignment s job
        in \<lparr>document = doc_name, section_of = s,
            relevance_score =
              combine keyword_score semantic_score structural_score persona_al job_al,
            persona_alignment = persona_al, job_alignment = job_al,
            importance_rank = 0\<rparr>)"

text \<open>The slice \<open>xs[:k]\<close>: a negative \<open>k\<close> counts from the end of the list.\<close>

definition py_slice_to :: "int \<Rightarrow> 'a list \<Rightarrow> 'a list" where
  "py_slice_to k xs = (if 0 \<le> k then take (nat k) xs else take (nat (int (length xs) + k)) xs)"

text \<open>\<open>for i, x in enumerate(xs, start): x.importance_rank = i\<close>.\<close>

fun assign_ranks :: "int \<Rightarrow> ScoredSection list \<Rightarrow> ScoredSection list" where
  "assign_ranks i [] = []"
| "assign_ranks i (x # xs) = x\<lparr>importance_rank := i\<rparr> # assign_ranks (i + 1) xs"

text \<open>
  \<open>list.sort(key, reverse=True)\<close> is stable: equal keys keep their order. That is the
  stable insertion sort \<open>sort_key\<close> on the negated key.
\<close>

definition all_sections_of :: "ProcessedDocument list \<Rightarrow> (string \<times> DocumentSection) list" where
  "all_sections_of documents =
     concat (map (\<lambda>doc. map (\<lambda>s. (filename doc, s)) (sections doc)) documents)"

definition score_sections ::
  "('v, 'm) tfidf \<Rightarrow> (string \<Rightarrow> py_float option) \<Rightarrow> 'v \<Rightarrow> ProcessedDocument list
     \<Rightarrow> PersonaProfile \<Rightarrow> JobRequirements \<Rightarrow> int \<Rightarrow> ScoredSection list \<times> 'v" where
  "score_sections tf to_float v documents persona job max_sections =
     (let all_sections = all_sections_of documents
      in if all_sections = [] then ([], v)
         else
           let section_texts = map (\<lambda>(doc_name, s). content s) all_sections;
               (v', tfidf_matrix) = fit_transform tf v section_texts;
               scored_sections =
                 map (score_one tf to_float v' tfidf_matrix persona job)
                   (enumerate 0 all_sections);
               sorted_sections = sort_key (\<lambda>x. - relevance_score x) scored_sections
           in (assign_ranks 1 (py_slice_to max_sections sorted_sections), v'))"

section \<open>Subsection extractor\<close>

text \<open>
  \<open>re.split(r'[.!?]+', content)\<close>: the pieces between maximal runs of sentence-ending
  punctuation, empty pieces at the ends included. The flag of \<open>re_split_from\<close> says that
  the previous character belonged to such a run, the second argument is the piece so far.
\<close>

definition is_sentence_end :: "char \<Rightarrow> bool" where
  "is_sentence_end c = (c = CHR ''.'' \<or> c = CHR ''!'' \<or> c = CHR ''?'')"

fun re_split_from :: "bool \<Rightarrow> string \<Rightarrow> string \<Rightarrow> string list" where
  "re_split_from in_run w [] = [w]"
| "re_split_from in_run w (c # cs) =
     (if is_sentence_end c
      then (if in_run then re_split_from True w cs else w # re_split_from True [] cs)
      else re_split_from False (w @ [c]) cs)"

definition re_split_sentences :: "string \<Rightarrow> string list" where
  "re_split_sentences text = re_split_from False [] text"

definition split_sentences :: "string \<Rightarrow> string list" where
  "split_sentences text =
     map py_strip (filter (\<lambda>s. length (py_strip s) > 20) (re_split_sentences text))"

definition quality_indicators :: "string list" where
  "quality_indicators =
     [''result'', ''finding'', ''conclusion'', ''analysis'', ''method'', ''approach'']"

definition score_sentence ::
  "string \<Rightarrow> PersonaProfile \<Rightarrow> JobRequirements \<Rightarrow> py_error + real" where
  "score_sentence sentence persona job =
     (let sentence_lower = lower sentence;
          all_keywords = persona_keywords persona \<union> priority_keywords job;
          keyword_matches = card {keyword \<in> all_keywords. py_in keyword sentence_lower};
          words = length (py_split sentence)
      in if words = 0 then Inl ZeroDivisionError
         else
           let keyword_score = min (real keyword_matches / real words * 2) 1;
               length_score =
                 (if 5 \<le> words \<and> words \<le> 30 then 1
                  else if words < 5 then 0.5
                  else max 0.1 (1 - (real words - 30) * 0.02));
               quality_score = (if any_in quality_indicators sentence_lower then 0.3 else 0)
           in Inr (keyword_score * 0.6 + length_score * 0.2 + quality_score * 0.2))"

text \<open>Scoring the sentences in order; the first error ends the loop, as the exception would.\<close>

fun score_all ::
  "string list \<Rightarrow> PersonaProfile \<Rightarrow> JobRequirements \<Rightarrow> py_error + (string \<times> real) list" where
  "score_all [] persona job = Inr []"
| "score_all (sentence # rest) persona job =
     (case score_sentence sentence persona job of
        Inl e \<Rightarrow> Inl e
      | Inr score \<Rightarrow>
          (case score_all rest persona job of
             Inl e \<Rightarrow> Inl e
           | Inr scores \<Rightarrow> Inr ((sentence, score) # scores)))"

text \<open>The index of the first sentence that contains the target.\<close>

fun find_target :: "nat \<Rightarrow> string \<Rightarrow> string list \<Rightarrow> nat option" where
  "find_target i target [] = None"
| "find_target i target (sentence # rest) =
     (if py_in target sentence then Some i else find_target (i + 1) target rest)"

text \<open>\<open>re.sub(r'\s+', ' ', text)\<close>: every maximal run of whitespace becomes one space.\<close>

fun collapse_whitespace :: "bool \<Rightarrow> string \<Rightarrow> string" where
  "collapse_whitespace in_run [] = []"
| "collapse_whitespace in_run (c # cs) =
     (if py_isspace c
      then (if in_run then collapse_whitespace True cs
            else CHR '' '' # collapse_whitespace True cs)
      else c # collapse_whitespace False cs)"

definition refine_sentence_with_context :: "string \<Rightarrow> string list \<Rightarrow> string" where
  "refine_sentence_with_context target_sentence all_sentences =
     (case find_target 0 (py_strip target_sentence) all_sentences of
        None \<Rightarrow> target_sentence
      | Some target_index \<Rightarrow>
          let before =
                (if target_index > 0 then [all_sentences ! (target_index - 1)] else []);
              after =
                (if target_index + 1 < length all_sentences
                 then [all_sentences ! (target_index + 1)] else []);
              context_sentences = before @ [target_sentence] @ after
          in py_strip (collapse_whitespace False (py_join ''. '' context_sentences)))"

definition extract_section_subsections ::
  "ScoredSection \<Rightarrow> PersonaProfile \<Rightarrow> JobRequirements \<Rightarrow> int \<Rightarrow> py_error + SubSection list" where
  "extract_section_subsections scored_section persona job max_subsections =
     (let s = section_of scored_section;
          sentences = split_sentences (content s)
      in if sentences = [] then Inr []
         else
           (case score_all sentences persona job of
              Inl e \<Rightarrow> Inl e
            | Inr sentence_scores \<Rightarrow>
                let sorted_scores = sort_key (\<lambda>x. - snd x) sentence_scores;
                    top_sentences = py_slice_to max_subsections sorted_scores
                in Inr (map (\<lambda>(sentence, score).
                               \<lparr>sub_document = document scored_section,
                                sub_page_number = page_number s,
                                refined_text = refine_sentence_with_context sentence sentences,
                                parent_section = title s,
                                sub_relevance_score = score\<rparr>)
                          top_sentences)))"

fun collect_subsections ::
  "ScoredSection list \<Rightarrow> PersonaProfile \<Rightarrow> JobRequirements \<Rightarrow> int
     \<Rightarrow> py_error + SubSection list" where
  "collect_subsections [] persona job max_subsections = Inr []"
| "collect_subsections (scored_section # rest) persona job max_subsections =
     (case extract_section_subsections scored_section persona job max_subsections of
        Inl e \<Rightarrow> Inl e
      | Inr section_subsections \<Rightarrow>
          (case collect_subsections rest persona job max_subsections of
             Inl e \<Rightarrow> Inl e
           | Inr subsections \<Rightarrow> Inr (section_subsections @ subsections)))"

definition extract_subsections ::
  "ScoredSection list \<Rightarrow> PersonaProfile \<Rightarrow> JobRequirements \<Rightarrow> int
     \<Rightarrow> py_error + SubSection list" where
  "extract_subsections scored persona job max_subsections =
     (case collect_subsections scored persona job max_subsections of
        Inl e \<Rightarrow> Inl e
      | Inr subsections \<Rightarrow> Inr (sort_key (\<lambda>x. - sub_relevance_score x) subsections))"

section \<open>Profile extractor\<close>

text \<open>
  The regular expressions of persona\_analyzer.py are data of this type; the matcher
  of Python's \<open>re\<close> module is a collaborator, taken as a parameter. \<open>Chars\<close> is a
  character class of ranges, \<open>NoneOf\<close> a negated class, \<open>Space\<close> the class \<open>\s\<close>,
  \<open>Group\<close> a capturing group, \<open>AtLeast n\<close> the repetition \<open>{n,}\<close>.
\<close>

datatype regex =
    Lit string
  | Chars "(char \<times> char) list"
  | NoneOf string
  | Space
  | WordBoundary
  | LineStart
  | Seq "regex list"
  | Alt "regex list"
  | Star regex
  | Plus regex
  | Opt regex
  | AtLeast nat regex
  | Group regex

text \<open>
  \<open>re_search p ignorecase text\<close> is \<open>group(0)\<close> of \<open>re.search\<close>,
  \<open>re_match_group1 p text\<close> is \<open>group(1)\<close> of \<open>re.match\<close>, and
  \<open>re_findall p ignorecase text\<close> is \<open>re.findall\<close> for a pattern with at most one
  capturing group, where it returns a list of strings.
\<close>

record regex_engine =
  re_search :: "regex \<Rightarrow> bool \<Rightarrow> string \<Rightarrow> string option"
  re_match_group1 :: "regex \<Rightarrow> string \<Rightarrow> string option"
  re_findall :: "regex \<Rightarrow> bool \<Rightarrow> string \<Rightarrow> string list"

text \<open>The sub-pattern \<open>[A-Z][a-z]+(?:\s+[A-Z][a-z]+)*\<close>, which five patterns share.\<close>

definition capitalized_word :: regex where
  "capitalized_word = Seq [Chars [(CHR ''A'', CHR ''Z'')], Plus (Chars [(CHR ''a'', CHR ''z'')])]"

definition capitalized_words :: regex where
  "capitalized_words =
     Seq [capitalized_word, Star (Seq [Plus Space, capitalized_word])]"

definition role_patterns :: "regex list" where
  "role_patterns =
     [Seq [Opt (Group (Seq [Lit ''PhD'', Plus Space])), Group capitalized_words, Plus Space,
           Alt [Lit ''Researcher'', Lit ''Student'', Lit ''Analyst'', Lit ''Manager'',
                Lit ''Director'']],
      Seq [Group (Alt [Lit ''Undergraduate'', Lit ''Graduate'']), Plus Space,
           Group capitalized_words, Plus Space, Lit ''Student''],
      Seq [Group capitalized_words, Plus Space,
           Group (Alt [Lit ''Analyst'', Lit ''Researcher'', Lit ''Scientist'', Lit ''Engineer'',
                       Lit ''Manager''])]]"

definition domain_patterns :: "regex list" where
  "domain_patterns =
     [Seq [Lit ''in'', Plus Space, Group capitalized_words],
      Seq [Group capitalized_words, Plus Space,
           Alt [Lit ''research'', Lit ''studies'', Lit ''field'']]]"

definition clause :: regex where
  "clause = Group (Plus (NoneOf '',.''))"

definition focus_patterns :: "regex list" where
  "focus_patterns =
     [Seq [Lit ''focus'', Opt (Alt [Lit ''ing'', Lit ''es'']), Plus Space, Lit ''on'',
           Plus Space, clause],
      Seq [Lit ''specializ'', Opt (Alt [Lit ''ing'', Lit ''es'']), Plus Space, Lit ''in'',
           Plus Space, clause],
      Seq [Lit ''expert'', Opt (Lit ''ise''), Plus Space, Lit ''in'', Plus Space, clause],
      Seq [Lit ''working'', Plus Space, Alt [Lit ''on'', Lit ''with''], Plus Space, clause]]"

definition need_patterns :: "regex list" where
  "need_patterns =
     [Seq [Lit ''focus'', Opt (Alt [Lit ''ing'', Lit ''es'']), Plus Space, Lit ''on'',
           Plus Space, clause],
      Seq [Lit ''includ'', Opt (Alt [Lit ''ing'', Lit ''es'']), Plus Space, clause],
      Seq [Lit ''such'', Plus Space, Lit ''as'', Plus Space, clause],
      Seq [Alt [Lit ''about'', Lit ''regarding'', Lit ''concerning''], Plus Space, clause]]"

definition word_pattern :: regex where
  "word_pattern =
     Seq [WordBoundary,
          AtLeast 3 (Chars [(CHR ''a'', CHR ''z''), (CHR ''A'', CHR ''Z'')]),
          WordBoundary]"

definition goal_pattern :: regex where
  "goal_pattern =
     Seq [LineStart,
          Group (Seq [Chars [(CHR ''A'', CHR ''Z'')], Plus (Chars [(CHR ''a'', CHR ''z'')]),
                      Star (Seq [Plus Space, Plus (Chars [(CHR ''a'', CHR ''z'')])])])]"

text \<open>The three tables of \<open>PersonaAnalyzer.__init__\<close>, in the order they are written.\<close>

definition analyzer_domain_keywords :: "(string \<times> string list) list" where
  "analyzer_domain_keywords =
     [(''computer_science'',
         [''algorithm'', ''programming'', ''software'', ''computing'', ''data structure'',
          ''AI'', ''ML'', ''neural network'']),
      (''biology'',
         [''gene'', ''protein'', ''cell'', ''organism'', ''evolution'', ''molecular'',
          ''biochemistry'', ''genetics'']),
      (''chemistry'',
         [''reaction'', ''compound'', ''molecule'', ''synthesis'', ''organic'', ''inorganic'',
          ''kinetics'', ''thermodynamics'']),
      (''finance'',
         [''revenue'', ''profit'', ''investment'', ''market'', ''financial'', ''economics'',
          ''trading'', ''portfolio'']),
      (''medicine'',
         [''patient'', ''treatment'', ''diagnosis'', ''clinical'', ''therapeutic'', ''medical'',
          ''healthcare'', ''disease'']),
      (''research'',
         [''study'', ''analysis'', ''methodology'', ''experiment'', ''hypothesis'',
          ''literature'', ''peer review'', ''publication'']),
      (''education'',
         [''student'', ''learning'', ''curriculum'', ''teaching'', ''academic'', ''exam'',
          ''course'', ''study'']),
      (''business'',
         [''strategy'', ''management'', ''operations'', ''marketing'', ''sales'', ''customer'',
          ''competitive'', ''market''])]"

definition skill_indicators :: "(string \<times> string list) list" where
  "skill_indicators =
     [(''beginner'', [''student'', ''undergraduate'', ''learner'', ''new'', ''entry-level'']),
      (''intermediate'', [''graduate'', ''analyst'', ''associate'', ''junior'']),
      (''advanced'', [''senior'', ''manager'', ''specialist'', ''experienced'']),
      (''expert'',
         [''phd'', ''professor'', ''director'', ''principal'', ''chief'', ''lead'', ''expert''])]"

definition job_types :: "(string \<times> string list) list" where
  "job_types =
     [(''analysis'', [''analyze'', ''analysis'', ''examine'', ''evaluate'', ''assess'', ''compare'']),
      (''synthesis'', [''summarize'', ''compile'', ''integrate'', ''combine'', ''consolidate'']),
      (''review'', [''review'', ''survey'', ''overview'', ''comprehensive'', ''literature'']),
      (''preparation'', [''prepare'', ''create'', ''develop'', ''design'', ''build'']),
      (''identification'', [''identify'', ''find'', ''locate'', ''extract'', ''select'']),
      (''learning'', [''learn'', ''study'', ''understand'', ''master'', ''practice''])]"

text \<open>
  The loop \<open>for key, indicators in table.items(): if any(...): return key\<close> followed by
  the default.
\<close>

fun first_matching_key :: "(string \<times> string list) list \<Rightarrow> string \<Rightarrow> string \<Rightarrow> string" where
  "first_matching_key [] description_lower fallback = fallback"
| "first_matching_key ((key, indicators) # rest) description_lower fallback =
     (if any_in indicators description_lower then key
      else first_matching_key rest description_lower fallback)"

fun first_search :: "regex_engine \<Rightarrow> regex list \<Rightarrow> string \<Rightarrow> string option" where
  "first_search re [] description = None"
| "first_search re (pattern # patterns) description =
     (case re_search re pattern True description of
        Some matched \<Rightarrow> Some (py_strip matched)
      | None \<Rightarrow> first_search re patterns description)"

definition extract_role :: "regex_engine \<Rightarrow> string \<Rightarrow> string" where
  "extract_role re description =
     (case first_search re role_patterns description of
        Some matched \<Rightarrow> matched
      | None \<Rightarrow>
          let words = py_split description
          in if length words \<ge> 2 then py_join '' '' (take 3 words)
             else py_strip description)"

definition determine_skill_level :: "string \<Rightarrow> string" where
  "determine_skill_level description =
     first_matching_key skill_indicators (lower description) ''intermediate''"

text \<open>\<open>match.lower().replace(' ', '_')\<close>.\<close>

definition domain_tag :: "string \<Rightarrow> string" where
  "domain_tag matched = map (\<lambda>c. if c = CHR '' '' then CHR ''_'' else c) (lower matched)"

text \<open>
  \<open>list(set(domains))\<close> leaves the order of the result unspecified; the model keeps first
  occurrences in order. Both domain patterns have one capturing group, so \<open>findall\<close>
  returns strings and the branch for tuples is never taken.
\<close>

definition extract_expertise_domains :: "regex_engine \<Rightarrow> string \<Rightarrow> string list" where
  "extract_expertise_domains re description =
     (let description_lower = lower description;
          domains =
            map fst (filter (\<lambda>(domain, kws). any_in kws description_lower)
                       analyzer_domain_keywords);
          explicit =
            concat (map (\<lambda>pattern. map domain_tag (re_findall re pattern False description))
                      domain_patterns)
      in remdups (domains @ explicit))"

definition extract_focus_areas :: "regex_engine \<Rightarrow> string \<Rightarrow> string list" where
  "extract_focus_areas re description =
     concat (map (\<lambda>pattern. map py_strip (re_findall re pattern True description))
               focus_patterns)"

definition persona_stop_words :: "string set" where
  "persona_stop_words =
     {''the'', ''and'', ''for'', ''are'', ''but'', ''not'', ''you'', ''all'', ''can'', ''had'',
      ''her'', ''was'', ''one'', ''our'', ''out'', ''day'', ''get'', ''has'', ''him'', ''his'',
      ''how'', ''man'', ''new'', ''now'', ''old'', ''see'', ''two'', ''way'', ''who'', ''its'',
      ''said'', ''each'', ''make'', ''most'', ''over'', ''such'', ''very'', ''what'', ''with''}"

definition job_stop_words :: "string set" where
  "job_stop_words =
     persona_stop_words \<union> {''given'', ''that'', ''this'', ''should'', ''will'', ''from''}"

definition generate_persona_keywords ::
  "regex_engine \<Rightarrow> string \<Rightarrow> string list \<Rightarrow> string set" where
  "generate_persona_keywords re description domains =
     (let words = re_findall re word_pattern False (lower description);
          keywords1 = set words;
          keywords2 =
            fold (\<lambda>domain keywords.
                    case map_of analyzer_domain_keywords domain of
                      Some kws \<Rightarrow> keywords \<union> set kws
                    | None \<Rightarrow> keywords)
              domains keywords1
      in keywords2 - persona_stop_words)"

definition analyze_persona :: "regex_engine \<Rightarrow> string \<Rightarrow> PersonaProfile" where
  "analyze_persona re persona_description =
     (let role' = extract_role re persona_description;
          skill_level' = determine_skill_level persona_description;
          expertise_domains' = extract_expertise_domains re persona_description;
          focus_areas' = extract_focus_areas re persona_description;
          keywords' = generate_persona_keywords re persona_description expertise_domains'
      in \<lparr>role = role', expertise_domains = expertise_domains', focus_areas = focus_areas',
          skill_level = skill_level', persona_keywords = keywords'\<rparr>)"

definition extract_primary_goal :: "regex_engine \<Rightarrow> string \<Rightarrow> string" where
  "extract_primary_goal re job_description =
     (case re_match_group1 re goal_pattern job_description of
        Some action \<Rightarrow> action
      | None \<Rightarrow> py_strip (takeWhile (\<lambda>c. c \<noteq> CHR ''.'') job_description))"

definition extract_information_needs :: "regex_engine \<Rightarrow> string \<Rightarrow> string list" where
  "extract_information_needs re job_description =
     concat (map (\<lambda>pattern. map py_strip (re_findall re pattern True job_description))
               need_patterns)"

definition determine_deliverable_type :: "string \<Rightarrow> string" where
  "determine_deliverable_type job_description =
     first_matching_key job_types (lower job_description) ''analysis''"

definition extract_priority_keywords :: "regex_engine \<Rightarrow> string \<Rightarrow> string set" where
  "extract_priority_keywords re job_description =
     set (re_findall re word_pattern False (lower job_description)) - job_stop_words"

definition define_success_criteria :: "string \<Rightarrow> string list" where
  "define_success_criteria job_description =
     (let d = lower job_description;
          criteria1 = (if py_in ''comprehensive'' d then [''Comprehensive coverage of topic''] else []);
          criteria2 =
            (if any_in [''methodology'', ''method''] d
             then criteria1 @ [''Clear methodology explanation''] else criteria1);
          criteria3 =
            (if any_in [''performance'', ''benchmark'', ''result''] d
             then criteria2 @ [''Performance metrics and results''] else criteria2);
          criteria4 =
            (if any_in [''trend'', ''analysis'', ''compare''] d
             then criteria3 @ [''Trend analysis and comparisons''] else criteria3)
      in if criteria4 = []
         then [''Relevant content extraction'', ''Clear organization'', ''Actionable insights'']
         else criteria4)"

definition analyze_job :: "regex_engine \<Rightarrow> string \<Rightarrow> JobRequirements" where
  "analyze_job re job_description =
     (let primary_goal' = extract_primary_goal re job_description;
          information_needs' = extract_information_needs re job_description;
          deliverable_type' = determine_deliverable_type job_description;
          priority_keywords' = extract_priority_keywords re job_description;
          success_criteria' = define_success_criteria job_description
      in \<lparr>primary_goal = primary_goal', information_needs = information_needs',
          deliverable_type = deliverable_type', priority_keywords = priority_keywords',
          success_criteria = success_criteria'\<rparr>)"

text \<open>The texts the vectorizer is fitted on: the bodies of the worklist.\<close>

definition section_texts_of :: "ProcessedDocument list \<Rightarrow> string list" where
  "section_texts_of documents = map (\<lambda>(doc_name, s). content s) (all_sections_of documents)"

section \<open>Example inputs\<close>

text \<open>
  A vectorizer whose fitting raises (the degraded case, semantic score 0), and one that
  keeps the corpus and scores a query 1 when it contains the section's body.
\<close>

definition failing_tfidf :: "(unit, unit) tfidf" where
  "failing_tfidf =
     \<lparr>fit_transform = (\<lambda>v texts. (v, None)), query_similarity = (\<lambda>v q m i. None)\<rparr>"

definition corpus_tfidf :: "(string list, string list) tfidf" where
  "corpus_tfidf =
     \<lparr>fit_transform = (\<lambda>v texts. (texts, Some texts)),
      query_similarity =
        (\<lambda>v q m i. if i < length m then Some (if py_in (m ! i) q then 1 else 0) else None)\<rparr>"

definition example_section :: DocumentSection where
  "example_section =
     \<lparr>title = ''Results'', content = ''data'', page_number = 1, section_number = None,
      start_position = None, end_position = None\<rparr>"

definition references_section :: DocumentSection where
  "references_section =
     \<lparr>title = ''References'', content = ''data'', page_number = 6, section_number = None,
      start_position = None, end_position = None\<rparr>"

definition example_document :: ProcessedDocument where
  "example_document = \<lparr>filename = ''a.pdf'', total_pages = 1, sections = [example_section]\<rparr>"

definition two_section_document :: ProcessedDocument where
  "two_section_document =
     \<lparr>filename = ''b.pdf'', total_pages = 6, sections = [example_section, references_section]\<rparr>"

definition example_persona :: PersonaProfile where
  "example_persona =
     \<lparr>role = [], expertise_domains = [], focus_areas = [], skill_level = ''intermediate'',
      persona_keywords = {''data''}\<rparr>"

definition example_job :: JobRequirements where
  "example_job =
     \<lparr>primary_goal = [], information_needs = [], deliverable_type = ''analysis'',
      priority_keywords = {}, success_criteria = []\<rparr>"

definition example_scored :: ScoredSection where
  "example_scored =
     \<lparr>document = ''a.pdf'', section_of = example_section,
      relevance_score = 3422735716801577 / 9007199254740992,
      persona_alignment = 0, job_alignment = 0, importance_rank = 1\<rparr>"

text \<open>
  A section numbered 1 on page 1 with a body of fifty words, and \<open>float\<close> on the string
  \<open>1\<close>, the only one that section passes to it.
\<close>

definition fifty_words :: string where
  "fifty_words = concat (replicate 50 ''data '')"

definition numbered_section :: DocumentSection where
  "numbered_section =
     \<lparr>title = ''Background'', content = fifty_words, page_number = 1,
      section_number = Some ''1'', start_position = None, end_position = None\<rparr>"

definition float_of_one :: "string \<Rightarrow> py_float option" where
  "float_of_one t = (if t = ''1'' then Some (Finite 1) else None)"

definition example_sentence :: string where
  "example_sentence = ''The results show that data quality matters''"

definition sentence_section :: DocumentSection where
  "sentence_section =
     \<lparr>title = ''Findings'', content = ''The results show that data quality matters. Short.'',
      page_number = 2, section_number = None, start_position = None, end_position = None\<rparr>"

definition sentence_scored :: ScoredSection where
  "sentence_scored =
     \<lparr>document = ''a.pdf'', section_of = sentence_section, relevance_score = 1 / 2,
      persona_alignment = 0, job_alignment = 0, importance_rank = 1\<rparr>"

definition short_scored :: ScoredSection where
  "short_scored =
     \<lparr>document = ''a.pdf'',
      section_of = \<lparr>title = ''Note'', content = '' Too short. '', page_number = 2,
                     section_number = None, start_position = None, end_position = None\<rparr>,
      relevance_score = 1 / 2, persona_alignment = 0, job_alignment = 0,
      importance_rank = 1\<rparr>"

text \<open>A matcher that finds nothing, and a text in which no indicator word occurs.\<close>

definition no_match_engine :: regex_engine where
  "no_match_engine =
     \<lparr>re_search = (\<lambda>pattern ignorecase text. None),
      re_match_group1 = (\<lambda>pattern text. None),
      re_findall = (\<lambda>pattern ignorecase text. [])\<rparr>"

definition unmatched_text :: string where
  "unmatched_text = ''hello world again friend''"

section \<open>Properties of the text primitives\<close>

lemma isspace_lower_char: "py_isspace (py_lower_char c) = py_isspace c"
  by (auto simp: py_isspace_def py_lower_char_def Let_def)

lemma split_from_lower:
  "split_from (map py_lower_char w) (map py_lower_char s) =
     map (map py_lower_char) (split_from w s)"
proof (induction s arbitrary: w)
  case Nil
  show ?case by simp
next
  case (Cons c cs)
  show ?case
    using Cons.IH [of "[]"] Cons.IH [of "w @ [c]"]
    by (simp add: isspace_lower_char)
qed

lemma word_count_lower: "length (py_split (lower s)) = length (py_split s)"
  using split_from_lower [of "[]" s] by (simp add: py_split_def lower_def)

section \<open>The keyword component\<close>

text \<open>
  Claim C2, amended. With \<open>K\<close> the union of the persona's keywords and the job's priority
  keywords: the keyword score is 0 when \<open>K\<close> is empty and 0 when the body has no word;
  otherwise it is \<open>min(1, (content_matches + 2 * title_matches) / (sqrt(word count of
  the body) * sqrt(|K|)))\<close>, where \<open>content_matches\<close> is the number of keywords of \<open>K\<close> that
  occur in the lower-cased body and \<open>title_matches\<close> the number of those that occur in the
  lower-cased title. A keyword counts once, however often it occurs.
\<close>

theorem keyword_score_formula:
  "calculate_keyword_score s persona job =
     (let K = persona_keywords persona \<union> priority_keywords job;
          content_matches = card {k \<in> K. py_in k (lower (content s))};
          title_matches = card {k \<in> K. py_in k (lower (title s))};
          word_count = length (py_split (content s))
      in if K = {} then 0
         else if word_count = 0 then 0
         else min 1 (real (content_matches + 2 * title_matches)
                       / (sqrt (real word_count) * sqrt (real (card K)))))"
  by (simp add: calculate_keyword_score_def Let_def word_count_lower min.commute
        mult.commute)

lemma lower_data4: "lower ''Data data data data'' = ''data data data data''"
  by code_simp

lemma lower_empty: "lower [] = []"
  by (simp add: lower_def)

lemma split_data4:
  "py_split ''Data data data data'' = [''Data'', ''data'', ''data'', ''data'']"
  by code_simp

lemma split_lower_data4:
  "py_split ''data data data data'' = [''data'', ''data'', ''data'', ''data'']"
  by code_simp

lemma keywords_in_data4: "{k \<in> {''data''}. py_in k ''data data data data''} = {''data''}"
  by auto

lemma keywords_in_empty: "{k \<in> {''data''}. py_in k []} = {}"
  by auto

lemma count_data4: "count_occurrences ''data'' ''data data data data'' = 4"
  by code_simp

text \<open>The formula at a body of four words that repeats the only keyword four times.\<close>

theorem keyword_score_formula_witness:
  "calculate_keyword_score
     \<lparr>title = [], content = ''Data data data data'', page_number = 1,
      section_number = None, start_position = None, end_position = None\<rparr>
     \<lparr>role = [], expertise_domains = [], focus_areas = [], skill_level = ''intermediate'',
      persona_keywords = {''data''}\<rparr>
     \<lparr>primary_goal = [], information_needs = [], deliverable_type = ''analysis'',
      priority_keywords = {}, success_criteria = []\<rparr> = 1 / 2"
  unfolding keyword_score_formula
  apply (simp only: DocumentSection.simps PersonaProfile.simps JobRequirements.simps
      lower_data4 lower_empty split_data4 keywords_in_data4 keywords_in_empty Let_def
      Un_empty_right)
  apply simp
  done

text \<open>
  Counting every occurrence, as the claim is worded, gives 1 at the same input, where
  the code gives one half.
\<close>

theorem keyword_score_counts_each_keyword_once:
  "calculate_keyword_score
     \<lparr>title = [], content = ''Data data data data'', page_number = 1,
      section_number = None, start_position = None, end_position = None\<rparr>
     \<lparr>role = [], expertise_domains = [], focus_areas = [], skill_level = ''intermediate'',
      persona_keywords = {''data''}\<rparr>
     \<lparr>primary_goal = [], information_needs = [], deliverable_type = ''analysis'',
      priority_keywords = {}, success_criteria = []\<rparr>
   \<noteq> keyword_score_as_specified
     \<lparr>title = [], content = ''Data data data data'', page_number = 1,
      section_number = None, start_position = None, end_position = None\<rparr>
     \<lparr>role = [], expertise_domains = [], focus_areas = [], skill_level = ''intermediate'',
      persona_keywords = {''data''}\<rparr>
     \<lparr>primary_goal = [], information_needs = [], deliverable_type = ''analysis'',
      priority_keywords = {}, success_criteria = []\<rparr>"
proof -
  have code: "calculate_keyword_score
     \<lparr>title = [], content = ''Data data data data'', page_number = 1,
      section_number = None, start_position = None, end_position = None\<rparr>
     \<lparr>role = [], expertise_domains = [], focus_areas = [], skill_level = ''intermediate'',
      persona_keywords = {''data''}\<rparr>
     \<lparr>primary_goal = [], information_needs = [], deliverable_type = ''analysis'',
      priority_keywords = {}, success_criteria = []\<rparr> = 1 / 2"
    unfolding calculate_keyword_score_def
    apply (simp only: DocumentSection.simps PersonaProfile.simps JobRequirements.simps
        lower_data4 lower_empty split_lower_data4 keywords_in_data4
        keywords_in_empty Let_def Un_empty_right)
    apply simp
    done
  have spec: "keyword_score_as_specified
     \<lparr>title = [], content = ''Data data data data'', page_number = 1,
      section_number = None, start_position = None, end_position = None\<rparr>
     \<lparr>role = [], expertise_domains = [], focus_areas = [], skill_level = ''intermediate'',
      persona_keywords = {''data''}\<rparr>
     \<lparr>primary_goal = [], information_needs = [], deliverable_type = ''analysis'',
      priority_keywords = {}, success_criteria = []\<rparr> = 1"
    unfolding keyword_score_as_specified_def
    apply (simp only: DocumentSection.simps PersonaProfile.simps JobRequirements.simps
        lower_data4 lower_empty split_data4 count_data4 Let_def Un_empty_right)
    apply simp
    done
  show ?thesis unfolding code spec by simp
qed

section \<open>The structural component\<close>

text \<open>
  Evaluation of the double arithmetic: a number that \<open>k\<close> doublings bring into the
  interval from \<open>2^52\<close> to \<open>2^53\<close> is rounded there. Then the three literals and the
  sums the structural score can form.
\<close>

lemma round_significand_scaled:
  "k < fuel \<Longrightarrow> 2 ^ 52 \<le> x * 2 ^ k \<Longrightarrow> x * 2 ^ k < 2 ^ 53
     \<Longrightarrow> round_significand fuel x = of_int (round_half_even (x * 2 ^ k)) / 2 ^ k"
proof (induction k arbitrary: fuel x)
  case 0
  then show ?case by (simp add: round_significand.simps)
next
  case (Suc k)
  from Suc.prems have scaled: "x * 2 ^ k < 2 ^ 52" and lower: "2 ^ 51 \<le> x * 2 ^ k"
    by simp_all
  have "0 < x"
  proof (rule ccontr)
    assume "\<not> 0 < x"
    then have "x * 2 ^ k \<le> 0" by (simp add: mult_le_0_iff)
    with lower show False by simp
  qed
  then have "x \<le> x * 2 ^ k" by simp
  with scaled have small: "x < 2 ^ 52" by simp
  from Suc.prems have fuel: "fuel \<noteq> 0" and k: "k < fuel - 1" by simp_all
  from Suc.prems have "2 ^ 52 \<le> (2 * x) * 2 ^ k" and "(2 * x) * 2 ^ k < 2 ^ 53"
    by (simp_all add: mult.assoc mult.left_commute)
  from Suc.IH [OF k this] small fuel show ?case
    by (subst round_significand.simps) (simp add: mult.assoc mult.left_commute)
qed

lemmas double_eval =
  double_add_def double_round_def round_half_even_def Let_def
  round_significand_scaled [where k = 53] round_significand_scaled [where k = 54]
  round_significand_scaled [where k = 55] round_significand_scaled [where k = 56]

lemma add_first_hit_eq:
  "add_first_hit score terms t =
     (if any_in terms t then double_add score (double_round 0.3) else score)"
  by (induction terms) (simp_all add: any_in_def)

lemma double_literals:
  "double_round 0.3 = 5404319552844595 / 18014398509481984"
  "double_round 0.2 = 3602879701896397 / 18014398509481984"
  "double_round 0.1 = 3602879701896397 / 36028797018963968"
  "double_round (3 / 10) = 5404319552844595 / 18014398509481984"
  "double_round (1 / 5) = 3602879701896397 / 18014398509481984"
  "double_round (1 / 10) = 3602879701896397 / 36028797018963968"
  by (simp_all add: double_eval)

lemma double_sums:
  "double_add 0 (3602879701896397 / 36028797018963968) = 3602879701896397 / 36028797018963968"
  "double_add 0 (3602879701896397 / 18014398509481984) = 3602879701896397 / 18014398509481984"
  "double_add 0 (5404319552844595 / 18014398509481984) = 5404319552844595 / 18014398509481984"
  "double_add (3602879701896397 / 36028797018963968) (3602879701896397 / 36028797018963968) = 3602879701896397 / 18014398509481984"
  "double_add (3602879701896397 / 18014398509481984) (3602879701896397 / 36028797018963968) = 1351079888211149 / 4503599627370496"
  "double_add (3602879701896397 / 18014398509481984) (3602879701896397 / 18014398509481984) = 3602879701896397 / 9007199254740992"
  "double_add (5404319552844595 / 18014398509481984) (3602879701896397 / 36028797018963968) = 3602879701896397 / 9007199254740992"
  "double_add (5404319552844595 / 18014398509481984) (3602879701896397 / 18014398509481984) = 1 / 2"
  "double_add (1351079888211149 / 4503599627370496) (3602879701896397 / 36028797018963968) = 3602879701896397 / 9007199254740992"
  "double_add (3602879701896397 / 9007199254740992) (3602879701896397 / 36028797018963968) = 1 / 2"
  "double_add (1 / 2) (3602879701896397 / 36028797018963968) = 5404319552844595 / 9007199254740992"
  "double_add (1 / 2) (3602879701896397 / 18014398509481984) = 3152519739159347 / 4503599627370496"
  "double_add (5404319552844595 / 9007199254740992) (3602879701896397 / 36028797018963968) = 3152519739159347 / 4503599627370496"
  "double_add (3152519739159347 / 4503599627370496) (3602879701896397 / 36028797018963968) = 7205759403792793 / 9007199254740992"
  by (simp_all add: double_eval)

lemma structural_score_as_fold:
  "\<exists>incs\<in>set [[], [double_round 0.1], [double_round 0.2], [double_round 0.2, double_round 0.1],
                 [double_round 0.1, double_round 0.1],
                 [double_round 0.2, double_round 0.2],
                 [double_round 0.2, double_round 0.2, double_round 0.1],
                 [double_round 0.2, double_round 0.1, double_round 0.1]].
     \<forall>t. calculate_structural_score to_float (s\<lparr>title := t\<rparr>)
           = min (foldl double_add
                    (if any_in high_value_terms (lower t) then double_add 0 (double_round 0.3)
                     else 0) incs) 1"
proof -
  define a where "a =
    (case section_number s of
       None \<Rightarrow> []
     | Some num \<Rightarrow>
         if num = [] then []
         else (case to_float (first_component num) of
                 None \<Rightarrow> []
               | Some first_num \<Rightarrow> if float_le first_num 3 then [double_round 0.2] else []))"
  define b where "b =
    (if 50 \<le> length (py_split (content s)) \<and> length (py_split (content s)) \<le> 500
     then [double_round 0.2]
     else if length (py_split (content s)) > 500 then [double_round 0.1] else [])"
  define c where "c = (if page_number s \<le> 3 then [double_round 0.1] else [])"
  have a: "a = [] \<or> a = [double_round 0.2]"
    by (auto simp: a_def split: option.split)
  have b: "b = [] \<or> b = [double_round 0.2] \<or> b = [double_round 0.1]"
    by (auto simp: b_def)
  have c: "c = [] \<or> c = [double_round 0.1]"
    by (auto simp: c_def)
  have "calculate_structural_score to_float (s\<lparr>title := t\<rparr>)
           = min (foldl double_add
                    (if any_in high_value_terms (lower t) then double_add 0 (double_round 0.3)
                     else 0) (a @ b @ c)) 1" for t
    by (simp add: calculate_structural_score_def add_first_hit_eq Let_def a_def b_def c_def
          split: option.split)
  moreover have "a @ b @ c \<in> set [[], [double_round 0.1], [double_round 0.2],
                 [double_round 0.2, double_round 0.1],
                 [double_round 0.1, double_round 0.1],
                 [double_round 0.2, double_round 0.2],
                 [double_round 0.2, double_round 0.2, double_round 0.1],
                 [double_round 0.2, double_round 0.1, double_round 0.1]]"
    using a b c by (elim disjE) simp_all
  ultimately show ?thesis by blast
qed

lemma title_increment_table:
  "\<forall>incs\<in>set [[], [double_round 0.1], [double_round 0.2], [double_round 0.2, double_round 0.1],
                 [double_round 0.1, double_round 0.1],
                 [double_round 0.2, double_round 0.2],
                 [double_round 0.2, double_round 0.2, double_round 0.1],
                 [double_round 0.2, double_round 0.1, double_round 0.1]].
     min (foldl double_add 0 incs) 1 < min (foldl double_add (double_add 0 (double_round 0.3)) incs) 1
   \<and> \<bar>min (foldl double_add (double_add 0 (double_round 0.3)) incs) 1
        - min (foldl double_add 0 incs) 1 - 0.3\<bar> \<le> 1 / 2 ^ 53"
  by (simp add: double_literals double_sums)

text \<open>
  Claim C6, amended. For a section whose lower-cased title contains none of the ten
  high-value terms, replacing the title by one that contains such a term, all other
  fields equal, strictly increases the structural score, by 0.3 up to the rounding of the
  double additions: the increase differs from 0.3 by at most \<open>2^-53\<close>. It is not in
  general exactly 0.3, and the new score is not in general the double sum of the old
  score and 0.3.
\<close>

theorem structural_score_title_increase:
  assumes "\<not> any_in high_value_terms (lower (title s))"
    and "any_in high_value_terms (lower new_title)"
  shows "calculate_structural_score to_float s
           < calculate_structural_score to_float (s\<lparr>title := new_title\<rparr>)
       \<and> \<bar>calculate_structural_score to_float (s\<lparr>title := new_title\<rparr>)
            - calculate_structural_score to_float s - 0.3\<bar> \<le> 1 / 2 ^ 53"
proof -
  obtain incs where incs: "incs \<in> set [[], [double_round 0.1], [double_round 0.2],
                 [double_round 0.2, double_round 0.1],
                 [double_round 0.1, double_round 0.1],
                 [double_round 0.2, double_round 0.2],
                 [double_round 0.2, double_round 0.2, double_round 0.1],
                 [double_round 0.2, double_round 0.1, double_round 0.1]]"
    and score: "\<And>t. calculate_structural_score to_float (s\<lparr>title := t\<rparr>)
           = min (foldl double_add
                    (if any_in high_value_terms (lower t) then double_add 0 (double_round 0.3)
                     else 0) incs) 1"
    using structural_score_as_fold [of to_float s] by blast
  have old: "calculate_structural_score to_float s = min (foldl double_add 0 incs) 1"
    using score [of "title s"] assms(1) by simp
  have new: "calculate_structural_score to_float (s\<lparr>title := new_title\<rparr>)
      = min (foldl double_add (double_add 0 (double_round 0.3)) incs) 1"
    using score [of new_title] assms(2) by simp
  show ?thesis
    unfolding old new using title_increment_table incs by blast
qed

lemma lower_results: "lower ''Results'' = ''results''"
  by code_simp

lemma term_in_results: "any_in high_value_terms ''results''"
  by code_simp

lemma lower_background: "lower ''Background'' = ''background''"
  by code_simp

lemma no_term_in_background: "\<not> any_in high_value_terms ''background''"
  by code_simp

lemma fifty_words_count: "length (py_split fifty_words) = 50"
  by code_simp

lemma numbered_section_score:
  "calculate_structural_score float_of_one numbered_section = 1 / 2"
  by (simp add: calculate_structural_score_def add_first_hit_eq numbered_section_def
        lower_background no_term_in_background fifty_words_count first_component_def
        float_of_one_def double_literals double_sums)

lemma numbered_section_results_score:
  "calculate_structural_score float_of_one (numbered_section\<lparr>title := ''Results''\<rparr>)
     = 7205759403792793 / 9007199254740992"
  by (simp add: calculate_structural_score_def add_first_hit_eq numbered_section_def
        lower_results term_in_results fifty_words_count first_component_def
        float_of_one_def double_literals double_sums)

text \<open>
  The numbered section: the score goes from 0.5 to 0.7999999999999999.
\<close>

theorem structural_score_title_increase_witness:
  "\<not> any_in high_value_terms (lower (title numbered_section))
   \<and> any_in high_value_terms (lower ''Results'')
   \<and> calculate_structural_score float_of_one numbered_section
       < calculate_structural_score float_of_one (numbered_section\<lparr>title := ''Results''\<rparr>)
   \<and> \<bar>calculate_structural_score float_of_one (numbered_section\<lparr>title := ''Results''\<rparr>)
        - calculate_structural_score float_of_one numbered_section - 0.3\<bar> \<le> 1 / 2 ^ 53"
proof -
  have a: "\<not> any_in high_value_terms (lower (title numbered_section))"
    by (simp add: numbered_section_def lower_background no_term_in_background)
  have b: "any_in high_value_terms (lower ''Results'')"
    by (simp only: lower_results term_in_results)
  note t = structural_score_title_increase [OF a b, where to_float = float_of_one]
  from t have c: "calculate_structural_score float_of_one numbered_section
       < calculate_structural_score float_of_one (numbered_section\<lparr>title := ''Results''\<rparr>)"
    by (rule conjunct1)
  from t have d: "\<bar>calculate_structural_score float_of_one (numbered_section\<lparr>title := ''Results''\<rparr>)
        - calculate_structural_score float_of_one numbered_section - 0.3\<bar> \<le> 1 / 2 ^ 53"
    by (rule conjunct2)
  from a b c d show ?thesis by (intro conjI)
qed

text \<open>
  At the numbered section the new score is neither the old score plus 0.3 nor the double
  sum of the old score and 0.3 (which is 0.8), and the difference of the two scores is
  neither 0.3 nor the double 0.3.
\<close>

theorem title_increment_is_not_exact:
  "\<not> any_in high_value_terms (lower (title numbered_section))
   \<and> any_in high_value_terms (lower ''Results'')
   \<and> calculate_structural_score float_of_one numbered_section = 1 / 2
   \<and> calculate_structural_score float_of_one (numbered_section\<lparr>title := ''Results''\<rparr>)
       = 7205759403792793 / 9007199254740992
   \<and> calculate_structural_score float_of_one (numbered_section\<lparr>title := ''Results''\<rparr>)
       \<noteq> calculate_structural_score float_of_one numbered_section + 0.3
   \<and> calculate_structural_score float_of_one (numbered_section\<lparr>title := ''Results''\<rparr>)
       \<noteq> double_add (calculate_structural_score float_of_one numbered_section)
            (double_round 0.3)
   \<and> calculate_structural_score float_of_one (numbered_section\<lparr>title := ''Results''\<rparr>)
        - calculate_structural_score float_of_one numbered_section \<noteq> double_round 0.3"
proof -
  have a: "\<not> any_in high_value_terms (lower (title numbered_section))"
    by (simp add: numbered_section_def lower_background no_term_in_background)
  have b: "any_in high_value_terms (lower ''Results'')"
    by (simp only: lower_results term_in_results)
  have c: "(7205759403792793 / 9007199254740992 :: real) \<noteq> 1 / 2 + 0.3"
    by simp
  have sum: "double_add (1 / 2) (5404319552844595 / 18014398509481984)
      = 3602879701896397 / 4503599627370496"
    by (simp add: double_eval)
  have d: "(7205759403792793 / 9007199254740992 :: real) \<noteq> double_add (1 / 2) (double_round 0.3)"
    by (simp add: double_literals sum)
  have e: "(7205759403792793 / 9007199254740992 :: real) - 1 / 2 \<noteq> double_round 0.3"
    by (simp add: double_literals)
  from a b numbered_section_score numbered_section_results_score c d e show ?thesis
    unfolding numbered_section_score numbered_section_results_score by (intro conjI)
qed

section \<open>Ranking\<close>

lemma length_assign_ranks: "length (assign_ranks i xs) = length xs"
  by (induction xs arbitrary: i) simp_all

lemma ranks_assign_ranks:
  "map importance_rank (assign_ranks i xs) = map (\<lambda>k. i + int k) [0..<length xs]"
proof (induction xs arbitrary: i)
  case Nil
  show ?case by simp
next
  case (Cons x xs)
  have "map (\<lambda>k. i + int k) [0..<length (x # xs)]
          = i # map (\<lambda>k. i + int k) (map Suc [0..<length xs])"
    by (simp add: upt_conv_Cons map_Suc_upt del: upt_Suc)
  also have "\<dots> = i # map (\<lambda>k. (i + 1) + int k) [0..<length xs]"
    by (simp add: algebra_simps)
  finally show ?case using Cons.IH [of "i + 1"] by simp
qed

lemma ranks_from_one:
  "map importance_rank (assign_ranks 1 xs) = map int [1..<Suc (length xs)]"
proof -
  have "map int [1..<Suc (length xs)] = map int (map Suc [0..<length xs])"
    by (simp add: map_Suc_upt del: upt_Suc)
  also have "\<dots> = map (\<lambda>k. 1 + int k) [0..<length xs]"
    by simp
  finally show ?thesis by (simp add: ranks_assign_ranks)
qed

lemma set_assign_ranks:
  "x \<in> set (assign_ranks i xs) \<Longrightarrow> \<exists>y\<in>set xs. \<exists>r. x = y\<lparr>importance_rank := r\<rparr>"
  by (induction xs arbitrary: i) auto

lemma set_py_slice_to: "set (py_slice_to k xs) \<subseteq> set xs"
  by (simp add: py_slice_to_def set_take_subset)

lemma length_py_slice_to:
  "0 \<le> k \<Longrightarrow> length (py_slice_to k xs) = min (nat k) (length xs)"
  by (simp add: py_slice_to_def min.commute)

lemma length_all_sections_of:
  "length (all_sections_of documents) = sum_list (map (\<lambda>doc. length (sections doc)) documents)"
  by (induction documents) (simp_all add: all_sections_of_def)

lemma score_sections_result:
  "fst (score_sections tf to_float v documents persona job k) =
     (if all_sections_of documents = [] then []
      else assign_ranks 1 (py_slice_to k
             (sort_key (\<lambda>x. - relevance_score x)
                (map (score_one tf to_float
                        (fst (fit_transform tf v (section_texts_of documents)))
                        (snd (fit_transform tf v (section_texts_of documents))) persona job)
                   (enumerate 0 (all_sections_of documents))))))"
  by (simp add: score_sections_def section_texts_of_def Let_def split: prod.split)

lemma combine_eq:
  "combine k se st p j = 0.30 * k + 0.20 * se + 0.20 * st + 0.15 * p + 0.15 * j"
  by (simp add: combine_def weights_def)

lemma example_job_alignment: "calculate_job_alignment example_section example_job = 0"
  by code_simp

lemma example_persona_alignment:
  "calculate_persona_alignment example_section example_persona = 0"
  by code_simp

lemma lower_data: "lower ''data'' = ''data''"
  by code_simp

lemma split_data: "py_split ''data'' = [''data'']"
  by code_simp

lemma example_structural:
  "calculate_structural_score (\<lambda>x. None) example_section
     = 3602879701896397 / 9007199254740992"
  by (simp add: calculate_structural_score_def add_first_hit_eq example_section_def
        lower_results term_in_results split_data double_literals double_sums)

lemma example_keyword:
  "calculate_keyword_score example_section example_persona example_job = 1"
proof -
  have a: "{k \<in> {''data''}. py_in k ''data''} = {''data''}" by auto
  have b: "{k \<in> {''data''}. py_in k ''results''} = {}" by auto
  show ?thesis
    unfolding calculate_keyword_score_def example_section_def example_persona_def
      example_job_def
    apply (simp only: DocumentSection.simps PersonaProfile.simps JobRequirements.simps
      lower_results lower_data split_data a b Let_def Un_empty_right)
    apply simp
    done
qed

lemma example_all_sections:
  "all_sections_of [example_document] = [(''a.pdf'', example_section)]"
  by (simp add: all_sections_of_def example_document_def)

lemma example_result:
  "fst (score_sections failing_tfidf (\<lambda>x. None) () [example_document] example_persona
          example_job 5) = [example_scored]"
  unfolding score_sections_result example_all_sections
  by (simp add: score_one_def calculate_semantic_score_def failing_tfidf_def example_keyword
        example_structural example_persona_alignment example_job_alignment
        combine_eq py_slice_to_def example_scored_def)

text \<open>
  Claim C1. For every section the scoring loop of \<open>score_sections\<close> scores, the relevance
  score is 0.30 * keyword + 0.20 * semantic + 0.20 * structural + 0.15 * persona\_alignment
  + 0.15 * job\_alignment of that section, the two alignments being stored as they are;
  when the five component scores lie in [0,1], so does the relevance score. Every element
  of the returned list is such a scored section of the worklist, with its rank set.
\<close>

theorem relevance_is_weighted_sum:
  "(let x = score_one tf to_float v' tfidf_matrix persona job (i, doc_name, s);
        keyword_score = calculate_keyword_score s persona job;
        semantic_score = calculate_semantic_score tf v' s persona job tfidf_matrix i;
        structural_score = calculate_structural_score to_float s
    in section_of x = s
     \<and> persona_alignment x = calculate_persona_alignment s persona
     \<and> job_alignment x = calculate_job_alignment s job
     \<and> relevance_score x =
         0.30 * keyword_score + 0.20 * semantic_score + 0.20 * structural_score
           + 0.15 * persona_alignment x + 0.15 * job_alignment x
     \<and> (0 \<le> keyword_score \<and> keyword_score \<le> 1
        \<and> 0 \<le> semantic_score \<and> semantic_score \<le> 1
        \<and> 0 \<le> structural_score \<and> structural_score \<le> 1
        \<and> 0 \<le> persona_alignment x \<and> persona_alignment x \<le> 1
        \<and> 0 \<le> job_alignment x \<and> job_alignment x \<le> 1
        \<longrightarrow> 0 \<le> relevance_score x \<and> relevance_score x \<le> 1))
   \<and> (y \<in> set (fst (score_sections tf to_float v documents persona job max_sections)) \<longrightarrow>
        (\<exists>j rank.
           j < length (all_sections_of documents)
         \<and> y = (score_one tf to_float
                  (fst (fit_transform tf v (section_texts_of documents)))
                  (snd (fit_transform tf v (section_texts_of documents)))
                  persona job (j, all_sections_of documents ! j))\<lparr>importance_rank := rank\<rparr>))"
proof -
  have bound: "0 \<le> k \<and> k \<le> 1 \<and> 0 \<le> se \<and> se \<le> 1 \<and> 0 \<le> st \<and> st \<le> 1
       \<and> 0 \<le> p \<and> p \<le> 1 \<and> 0 \<le> j \<and> j \<le> (1::real)
     \<longrightarrow> 0 \<le> 0.30 * k + 0.20 * se + 0.20 * st + 0.15 * p + 0.15 * j
       \<and> 0.30 * k + 0.20 * se + 0.20 * st + 0.15 * p + 0.15 * j \<le> 1" for k se st p j :: real
    by auto
  have one: "let x = score_one tf to_float v' tfidf_matrix persona job (i, doc_name, s);
        keyword_score = calculate_keyword_score s persona job;
        semantic_score = calculate_semantic_score tf v' s persona job tfidf_matrix i;
        structural_score = calculate_structural_score to_float s
    in section_of x = s
     \<and> persona_alignment x = calculate_persona_alignment s persona
     \<and> job_alignment x = calculate_job_alignment s job
     \<and> relevance_score x =
         0.30 * keyword_score + 0.20 * semantic_score + 0.20 * structural_score
           + 0.15 * persona_alignment x + 0.15 * job_alignment x
     \<and> (0 \<le> keyword_score \<and> keyword_score \<le> 1
        \<and> 0 \<le> semantic_score \<and> semantic_score \<le> 1
        \<and> 0 \<le> structural_score \<and> structural_score \<le> 1
        \<and> 0 \<le> persona_alignment x \<and> persona_alignment x \<le> 1
        \<and> 0 \<le> job_alignment x \<and> job_alignment x \<le> 1
        \<longrightarrow> 0 \<le> relevance_score x \<and> relevance_score x \<le> 1)"
    using bound by (simp add: score_one_def Let_def combine_eq)
  have returned: "\<exists>j rank.
           j < length (all_sections_of documents)
         \<and> y = (score_one tf to_float
                  (fst (fit_transform tf v (section_texts_of documents)))
                  (snd (fit_transform tf v (section_texts_of documents)))
                  persona job (j, all_sections_of documents ! j))\<lparr>importance_rank := rank\<rparr>"
    if mem: "y \<in> set (fst (score_sections tf to_float v documents persona job max_sections))"
  proof -
    let ?all = "all_sections_of documents"
    let ?fit = "fit_transform tf v (section_texts_of documents)"
    let ?one = "score_one tf to_float (fst ?fit) (snd ?fit) persona job"
    from mem have "y \<in> set (assign_ranks 1 (py_slice_to max_sections
          (sort_key (\<lambda>x. - relevance_score x) (map ?one (enumerate 0 ?all)))))"
      by (auto simp: score_sections_result split: if_splits)
    then obtain z r where z: "z \<in> set (py_slice_to max_sections
          (sort_key (\<lambda>x. - relevance_score x) (map ?one (enumerate 0 ?all))))"
        and y: "y = z\<lparr>importance_rank := r\<rparr>"
      using set_assign_ranks by blast
    from z have "z \<in> set (map ?one (enumerate 0 ?all))"
      using set_py_slice_to by fastforce
    then obtain j e where e: "(j, e) \<in> set (enumerate 0 ?all)" and zo: "z = ?one (j, e)"
      by auto
    from e have "j < length ?all" and "?all ! j = e"
      by (simp_all add: in_set_enumerate_eq)
    with y zo show ?thesis by blast
  qed
  from one returned show ?thesis by blast
qed

text \<open>
  One document with one section, a vectorizer that fails: keyword score 1, semantic 0,
  structural 0.4 as a double, both alignments 0.
\<close>

theorem relevance_is_weighted_sum_witness:
  "example_scored \<in> set (fst (score_sections failing_tfidf (\<lambda>x. None) () [example_document]
                               example_persona example_job 5))
   \<and> example_scored =
       (score_one failing_tfidf (\<lambda>x. None) () None example_persona example_job
          (0, ''a.pdf'', example_section))\<lparr>importance_rank := 1\<rparr>
   \<and> relevance_score example_scored =
       0.30 * 1 + 0.20 * 0 + 0.20 * (3602879701896397 / 9007199254740992) + 0.15 * 0
         + 0.15 * 0
   \<and> 0 \<le> relevance_score example_scored \<and> relevance_score example_scored \<le> 1"
proof -
  note T = relevance_is_weighted_sum [where tf = failing_tfidf and to_float = "\<lambda>x. None"
      and v' = "()" and tfidf_matrix = None and persona = example_persona and job = example_job
      and i = 0 and doc_name = "''a.pdf''" and s = example_section
      and y = example_scored and v = "()" and documents = "[example_document]"
      and max_sections = 5]
  have mem: "example_scored \<in> set (fst (score_sections failing_tfidf (\<lambda>x. None) ()
      [example_document] example_persona example_job 5))"
    by (simp add: example_result)
  have sem: "calculate_semantic_score failing_tfidf () example_section example_persona
      example_job None 0 = 0"
    by (simp add: calculate_semantic_score_def)
  have eq: "example_scored =
       (score_one failing_tfidf (\<lambda>x. None) () None example_persona example_job
          (0, ''a.pdf'', example_section))\<lparr>importance_rank := 1\<rparr>"
    by (simp add: score_one_def sem example_keyword example_structural
          example_persona_alignment example_job_alignment combine_eq example_scored_def)
  have rel: "relevance_score example_scored =
      relevance_score (score_one failing_tfidf (\<lambda>x. None) () None example_persona example_job
          (0, ''a.pdf'', example_section))"
    by (subst eq) simp
  from T have "relevance_score example_scored
        = 0.30 * 1 + 0.20 * 0 + 0.20 * (3602879701896397 / 9007199254740992) + 0.15 * 0
         + 0.15 * 0
      \<and> 0 \<le> relevance_score example_scored \<and> relevance_score example_scored \<le> 1"
    unfolding Let_def rel
    by (simp add: sem example_keyword example_structural example_persona_alignment
          example_job_alignment)
  with mem eq show ?thesis by (intro conjI) simp_all
qed

text \<open>
  Claim C3, amended. With \<open>N\<close> the total number of sections: for every cap
  \<open>max_sections \<ge> 0\<close>, \<open>score_sections\<close> returns a list of length \<open>min(max_sections, N)\<close>
  whose ranks are exactly 1, 2, ... in list order; and when \<open>N = 0\<close> the result is the
  empty list, whatever the cap. The function has no failing branch.
\<close>

theorem ranked_length_and_ranks:
  "let result = fst (score_sections tf to_float v documents persona job max_sections);
       N = sum_list (map (\<lambda>doc. length (sections doc)) documents)
   in (0 \<le> max_sections \<longrightarrow>
         length result = min (nat max_sections) N
       \<and> map importance_rank result = map int [1..<Suc (min (nat max_sections) N)])
    \<and> (N = 0 \<longrightarrow> result = [])"
proof -
  let ?all = "all_sections_of documents"
  have N: "sum_list (map (\<lambda>doc. length (sections doc)) documents) = length ?all"
    by (simp add: length_all_sections_of)
  have len: "0 \<le> max_sections \<Longrightarrow>
      length (fst (score_sections tf to_float v documents persona job max_sections))
        = min (nat max_sections) (length ?all)"
    by (simp add: score_sections_result length_assign_ranks length_py_slice_to)
  have ranks: "map importance_rank (fst (score_sections tf to_float v documents persona job max_sections))
        = map int [1..<Suc (length (fst (score_sections tf to_float v documents persona job max_sections)))]"
    by (simp add: score_sections_result ranks_from_one length_assign_ranks del: upt_Suc)
  have empty: "length ?all = 0 \<Longrightarrow>
      fst (score_sections tf to_float v documents persona job max_sections) = []"
    by (simp add: score_sections_result)
  show ?thesis
    unfolding Let_def N using len ranks empty by (auto simp del: upt_Suc)
qed

text \<open>Two sections with caps 5 and 1, and no document at all.\<close>

theorem ranked_length_and_ranks_witness:
  "(0::int) \<le> 5
   \<and> length (fst (score_sections failing_tfidf (\<lambda>x. None) () [two_section_document]
                    example_persona example_job 5)) = 2
   \<and> map importance_rank
        (fst (score_sections failing_tfidf (\<lambda>x. None) () [two_section_document]
                example_persona example_job 5)) = [1, 2]
   \<and> length (fst (score_sections failing_tfidf (\<lambda>x. None) () [two_section_document]
                    example_persona example_job 1)) = 1
   \<and> fst (score_sections failing_tfidf (\<lambda>x. None) () [] example_persona example_job 5) = []"
  using ranked_length_and_ranks [of failing_tfidf "\<lambda>x. None" "()" "[two_section_document]"
          example_persona example_job 5]
        ranked_length_and_ranks [of failing_tfidf "\<lambda>x. None" "()" "[two_section_document]"
          example_persona example_job 1]
        ranked_length_and_ranks [of failing_tfidf "\<lambda>x. None" "()" "[]"
          example_persona example_job 5]
  by (simp add: Let_def two_section_document_def)

text \<open>
  With the cap -1 and two sections the slice drops the last element: one section is
  returned, which is not \<open>min(-1, 2)\<close>.
\<close>

theorem negative_cap_drops_from_the_end:
  "int (length (fst (score_sections failing_tfidf (\<lambda>x. None) () [two_section_document]
                       example_persona example_job (- 1))))
   \<noteq> min (- 1) (int (sum_list (map (\<lambda>doc. length (sections doc)) [two_section_document])))"
  by (simp add: score_sections_result length_assign_ranks py_slice_to_def
        all_sections_of_def two_section_document_def)

text \<open>
  Claim C7. The scorer refits its vectorizer on every call and reads nothing else of its
  own state: when refitting does not depend on the state left by earlier calls, two calls
  with the same documents, profile, requirements and cap return the same list, in the
  same order and with the same ranks, whatever state each call starts in.
\<close>

theorem score_sections_deterministic:
  assumes refit: "\<forall>v1 v2 texts. fit_transform tf v1 texts = fit_transform tf v2 texts"
  shows "fst (score_sections tf to_float v1 documents persona job max_sections)
         = fst (score_sections tf to_float v2 documents persona job max_sections)"
proof -
  have "fit_transform tf v1 (section_texts_of documents)
          = fit_transform tf v2 (section_texts_of documents)"
    using refit by blast
  then show ?thesis
    unfolding score_sections_result by simp
qed

text \<open>The second call starts in the state that the first call left.\<close>

theorem score_sections_deterministic_witness:
  "(\<forall>v1 v2 texts. fit_transform corpus_tfidf v1 texts = fit_transform corpus_tfidf v2 texts)
   \<and> fst (score_sections corpus_tfidf (\<lambda>x. None)
           (snd (score_sections corpus_tfidf (\<lambda>x. None) [] [two_section_document]
                   example_persona example_job 5))
           [two_section_document] example_persona example_job 5)
     = fst (score_sections corpus_tfidf (\<lambda>x. None) [] [two_section_document]
              example_persona example_job 5)"
proof -
  have refit: "\<forall>v1 v2 texts. fit_transform corpus_tfidf v1 texts
      = fit_transform corpus_tfidf v2 texts"
    by (simp add: corpus_tfidf_def)
  from refit score_sections_deterministic [OF refit] show ?thesis
    by (intro conjI)
qed

section \<open>Persona alignment and unknown domain tags\<close>

lemma domain_loop_append:
  "domain_loop score (xs @ ys) c t = domain_loop (domain_loop score xs c t) ys c t"
  by (induction xs arbitrary: score) simp_all

text \<open>
  Claim C10. For an expertise-domain tag that is not one of the eight fixed domain names,
  the domain-keyword lookup returns the empty list, the step of the domain loop for that
  tag leaves the score as it is, and the persona alignment of every section is the same
  with the tag in the profile as without it.
\<close>

theorem unknown_domain_tag_contributes_nothing:
  assumes "domain \<notin> {''computer_science'', ''biology'', ''chemistry'', ''finance'',
                       ''medicine'', ''research'', ''education'', ''business''}"
  shows "get_domain_keywords domain = []
       \<and> domain_loop score (domain # domains) content_lower title_lower
           = domain_loop score domains content_lower title_lower
       \<and> calculate_persona_alignment s (persona\<lparr>expertise_domains := before @ domain # after\<rparr>)
           = calculate_persona_alignment s (persona\<lparr>expertise_domains := before @ after\<rparr>)"
proof -
  from assms have none: "get_domain_keywords domain = []"
    by (simp add: get_domain_keywords_def domain_keywords_table_def)
  then have step: "domain_loop sc (domain # ds) c t = domain_loop sc ds c t" for sc ds c t
    by (simp add: domain_matches_def)
  show ?thesis
    by (simp add: none step calculate_persona_alignment_def domain_loop_append Let_def
          del: domain_loop.simps)
qed

text \<open>The free-text tag of ``PhD Researcher in Computational Biology''.\<close>

theorem unknown_domain_tag_contributes_nothing_witness:
  "''computational_biology'' \<notin> {''computer_science'', ''biology'', ''chemistry'', ''finance'',
                       ''medicine'', ''research'', ''education'', ''business''}
   \<and> get_domain_keywords ''computational_biology'' = []
   \<and> calculate_persona_alignment example_section
        (example_persona\<lparr>expertise_domains := [''computer_science''] @ ''computational_biology'' # []\<rparr>)
       = calculate_persona_alignment example_section
           (example_persona\<lparr>expertise_domains := [''computer_science''] @ []\<rparr>)"
proof -
  have a: "''computational_biology'' \<notin> {''computer_science'', ''biology'', ''chemistry'', ''finance'',
                       ''medicine'', ''research'', ''education'', ''business''}"
    by simp
  note t = unknown_domain_tag_contributes_nothing [OF a, where s = example_section
      and persona = example_persona and before = "[''computer_science'']" and after = "[]"]
  from t have b: "get_domain_keywords ''computational_biology'' = []"
    by (rule conjunct1)
  from t have c: "calculate_persona_alignment example_section
        (example_persona\<lparr>expertise_domains := [''computer_science''] @ ''computational_biology'' # []\<rparr>)
       = calculate_persona_alignment example_section
           (example_persona\<lparr>expertise_domains := [''computer_science''] @ []\<rparr>)"
    by (rule conjunct2 [THEN conjunct2])
  from a b c show ?thesis by (intro conjI)
qed

section \<open>The deliverable type\<close>

lemma first_matching_key_find:
  "first_matching_key table d fallback =
     (case find (\<lambda>(key, indicators). any_in indicators d) table of
        Some (key, indicators) \<Rightarrow> key
      | None \<Rightarrow> fallback)"
  by (induction table d fallback rule: first_matching_key.induct) simp_all

lemma lower_job:
  "lower ''Prepare a comprehensive literature review focusing on methodologies, datasets, and performance benchmarks''
   = ''prepare a comprehensive literature review focusing on methodologies, datasets, and performance benchmarks''"
  by code_simp

lemma deliverable_example:
  "first_matching_key job_types
     ''prepare a comprehensive literature review focusing on methodologies, datasets, and performance benchmarks''
     ''analysis'' = ''review''"
  by code_simp

text \<open>
  Claim C8. The six indicator lists are declared in the order analysis, synthesis, review,
  preparation, identification, learning; the deliverable type is the name of the first
  list, in that order, one of whose words occurs in the lower-cased job string, and
  \<open>analysis\<close> when there is none; for the job string of the end-to-end scenario it is
  \<open>review\<close>.
\<close>

theorem deliverable_type_first_hit:
  "map fst job_types =
     [''analysis'', ''synthesis'', ''review'', ''preparation'', ''identification'', ''learning'']
   \<and> determine_deliverable_type job_description =
       (case find (\<lambda>(job_type, indicators). any_in indicators (lower job_description)) job_types of
          Some (job_type, indicators) \<Rightarrow> job_type
        | None \<Rightarrow> ''analysis'')
   \<and> determine_deliverable_type
       ''Prepare a comprehensive literature review focusing on methodologies, datasets, and performance benchmarks''
       = ''review''"
  unfolding determine_deliverable_type_def lower_job deliverable_example
  by (simp add: first_matching_key_find) (simp add: job_types_def)

section \<open>Sentences: splitting and trimming\<close>

lemma split_from_Nil_iff: "split_from w s = [] \<longleftrightarrow> w = [] \<and> list_all py_isspace s"
  by (induction s arbitrary: w) auto

lemma strip_suffix:
  "dropWhile py_isspace s
     = py_strip s @ rev (takeWhile py_isspace (rev (dropWhile py_isspace s)))"
proof -
  let ?g = "dropWhile py_isspace s"
  have "rev (takeWhile py_isspace (rev ?g) @ dropWhile py_isspace (rev ?g)) = ?g"
    by simp
  then have "rev (dropWhile py_isspace (rev ?g)) @ rev (takeWhile py_isspace (rev ?g)) = ?g"
    by (simp only: rev_append)
  then show ?thesis by (simp only: py_strip_def)
qed

lemma strip_decomposition: "\<exists>l r. s = l @ py_strip s @ r"
proof -
  have "s = takeWhile py_isspace s @ dropWhile py_isspace s" by simp
  then have "s = takeWhile py_isspace s @ py_strip s
                   @ rev (takeWhile py_isspace (rev (dropWhile py_isspace s)))"
    using strip_suffix [of s] by simp
  then show ?thesis by blast
qed

lemma strip_last: "py_strip s \<noteq> [] \<Longrightarrow> \<not> py_isspace (last (py_strip s))"
  by (simp add: py_strip_def last_rev hd_dropWhile)

lemma strip_hd:
  assumes "py_strip s \<noteq> []"
  shows "\<not> py_isspace (hd (py_strip s))"
proof -
  let ?g = "dropWhile py_isspace s"
  from assms strip_suffix [of s] have "?g \<noteq> []" and "hd ?g = hd (py_strip s)"
    by (metis append_is_Nil_conv, metis hd_append2)
  then show ?thesis using hd_dropWhile [of py_isspace s] by simp
qed

lemma strip_has_word:
  assumes "py_strip s \<noteq> []"
  shows "py_split (py_strip s) \<noteq> []"
proof -
  from assms have "hd (py_strip s) \<in> set (py_strip s)" by simp
  with strip_hd [OF assms] have "\<not> list_all py_isspace (py_strip s)"
    by (auto simp: list_all_iff)
  then show ?thesis by (simp add: py_split_def split_from_Nil_iff)
qed

lemma dropWhile_keeps_core:
  "core \<noteq> [] \<Longrightarrow> \<not> P (hd core) \<Longrightarrow> \<exists>A'. dropWhile P (A @ core @ B) = A' @ core @ B"
proof (induction A)
  case Nil
  then have "dropWhile P (core @ B) = core @ B"
    by (cases core) simp_all
  then show ?case by (intro exI [of _ "[]"]) simp
next
  case (Cons a A)
  then obtain A' where "dropWhile P (A @ core @ B) = A' @ core @ B" by blast
  then show ?case
    by (cases "P a") (auto intro: exI [of _ "a # A"])
qed

lemma strip_sublist_length:
  "length (py_strip f) \<le> length (py_strip (ps @ f @ ss))"
proof (cases "py_strip f = []")
  case True
  then show ?thesis by simp
next
  case False
  define core where "core = py_strip f"
  have core: "core \<noteq> []" "\<not> py_isspace (hd core)" "\<not> py_isspace (last core)"
    using False strip_hd [OF False] strip_last [OF False] by (simp_all add: core_def)
  obtain l r where "f = l @ core @ r"
    using strip_decomposition [of f] unfolding core_def by blast
  then have body: "ps @ f @ ss = (ps @ l) @ core @ (r @ ss)"
    by simp
  obtain A' where d1: "dropWhile py_isspace ((ps @ l) @ core @ (r @ ss)) = A' @ core @ (r @ ss)"
    using dropWhile_keeps_core [where core = core and P = py_isspace, OF core(1,2)]
    by blast
  have rc: "rev core \<noteq> []" "\<not> py_isspace (hd (rev core))"
    using core by (simp_all add: hd_rev)
  obtain B' where
    d2: "dropWhile py_isspace (rev (r @ ss) @ rev core @ rev A') = B' @ rev core @ rev A'"
    using dropWhile_keeps_core [where core = "rev core" and P = py_isspace, OF rc] by blast
  have "py_strip (ps @ f @ ss) = rev (B' @ rev core @ rev A')"
    unfolding py_strip_def body d1 using d2 by simp
  then show ?thesis by (simp add: core_def)
qed

lemma re_split_from_sublist:
  "(in_run \<longrightarrow> w = []) \<Longrightarrow> x \<in> set (re_split_from in_run w s)
     \<Longrightarrow> \<exists>ps ss. w @ s = ps @ x @ ss"
proof (induction s arbitrary: in_run w)
  case Nil
  then have "x = w" by simp
  then show ?case by (intro exI [of _ "[]"]) simp
next
  case (Cons c cs)
  show ?case
  proof (cases "is_sentence_end c")
    case True
    show ?thesis
    proof (cases "x = w \<and> \<not> in_run")
      case True
      then show ?thesis by (intro exI [of _ "[]"] exI [of _ "c # cs"]) simp
    next
      case False
      with Cons.prems \<open>is_sentence_end c\<close> have "x \<in> set (re_split_from True [] cs)"
        by (auto split: if_splits)
      with Cons.IH [of True "[]"] obtain ps ss where "cs = ps @ x @ ss" by auto
      then have "w @ c # cs = (w @ c # ps) @ x @ ss" by simp
      then show ?thesis by blast
    qed
  next
    case False
    with Cons.prems have "x \<in> set (re_split_from False (w @ [c]) cs)" by simp
    with Cons.IH [of False "w @ [c]"] obtain ps ss where "(w @ [c]) @ cs = ps @ x @ ss"
      by auto
    then show ?thesis by auto
  qed
qed

lemma fragment_strip_length:
  assumes "f \<in> set (re_split_sentences body)"
  shows "length (py_strip f) \<le> length (py_strip body)"
proof -
  from assms obtain ps ss where "body = ps @ f @ ss"
    using re_split_from_sublist [of False "[]" f body] by (auto simp: re_split_sentences_def)
  then show ?thesis using strip_sublist_length by simp
qed

lemma short_body_no_sentences:
  "length (py_strip body) \<le> 20 \<Longrightarrow> split_sentences body = []"
  using fragment_strip_length [of _ body]
  by (fastforce simp: split_sentences_def filter_empty_conv)

lemma sentences_have_words:
  assumes "s \<in> set (split_sentences body)"
  shows "py_split s \<noteq> []"
proof -
  from assms obtain f where "s = py_strip f" "20 < length (py_strip f)"
    by (auto simp: split_sentences_def)
  moreover from this have "py_strip f \<noteq> []" by auto
  ultimately show ?thesis using strip_has_word [of f] by simp
qed

section \<open>Sentence scores and subsections\<close>

lemma score_sentence_formula:
  assumes "py_split sentence \<noteq> []"
  shows "score_sentence sentence persona job =
     Inr (0.6 * min 1 (real (card {k \<in> persona_keywords persona \<union> priority_keywords job.
                                     py_in k (lower sentence)})
                         / real (length (py_split sentence)) * 2)
          + 0.2 * (if 5 \<le> length (py_split sentence) \<and> length (py_split sentence) \<le> 30 then 1
                   else if length (py_split sentence) < 5 then 0.5
                   else max 0.1 (1 - (real (length (py_split sentence)) - 30) * 0.02))
          + 0.2 * (if any_in [''result'', ''finding'', ''conclusion'', ''analysis'', ''method'',
                              ''approach''] (lower sentence) then 0.3 else 0))"
  using assms
  by (simp add: score_sentence_def Let_def quality_indicators_def min.commute mult.commute)

lemma weighted_sentence_bound:
  fixes kd ls qs :: real
  assumes "0 \<le> kd" "kd \<le> 1" "0 \<le> ls" "ls \<le> 1" "0 \<le> qs" "qs \<le> 0.3"
  shows "0 \<le> 0.6 * kd + 0.2 * ls + 0.2 * qs \<and> 0.6 * kd + 0.2 * ls + 0.2 * qs \<le> 1"
  using assms by auto

lemma score_sentence_bounded:
  assumes "py_split sentence \<noteq> []"
  shows "\<exists>score. score_sentence sentence persona job = Inr score \<and> 0 \<le> score \<and> score \<le> 1"
proof -
  let ?n = "length (py_split sentence)"
  let ?kd = "min 1 (real (card {k \<in> persona_keywords persona \<union> priority_keywords job.
                                     py_in k (lower sentence)}) / real ?n * 2)"
  let ?ls = "if 5 \<le> ?n \<and> ?n \<le> 30 then 1
             else if ?n < 5 then 0.5 else max 0.1 (1 - (real ?n - 30) * 0.02) :: real"
  let ?qs = "if any_in [''result'', ''finding'', ''conclusion'', ''analysis'', ''method'',
                              ''approach''] (lower sentence) then 0.3 else 0 :: real"
  have kd: "0 \<le> ?kd" "?kd \<le> 1" by simp_all
  have ls: "0 \<le> ?ls" "?ls \<le> 1" by auto
  have qs: "0 \<le> ?qs" "?qs \<le> 0.3" by simp_all
  from weighted_sentence_bound [OF kd ls qs] score_sentence_formula [OF assms, of persona job]
  show ?thesis by simp
qed

lemma score_all_bounded:
  assumes "\<forall>s\<in>set sentences. py_split s \<noteq> []"
  shows "\<exists>scores. score_all sentences persona job = Inr scores
           \<and> (\<forall>p\<in>set scores. 0 \<le> snd p \<and> snd p \<le> 1)"
  using assms
proof (induction sentences)
  case Nil
  show ?case by simp
next
  case (Cons s rest)
  then obtain scores where r: "score_all rest persona job = Inr scores"
      and b: "\<forall>p\<in>set scores. 0 \<le> snd p \<and> snd p \<le> 1"
    by auto
  from Cons.prems obtain score where s: "score_sentence s persona job = Inr score"
      and sb: "0 \<le> score \<and> score \<le> 1"
    using score_sentence_bounded [of s persona job] by auto
  show ?case using r b s sb by simp
qed

lemma extract_section_subsections_bounded:
  "\<exists>subs. extract_section_subsections scored_section persona job max_subsections = Inr subs
     \<and> (\<forall>x\<in>set subs. 0 \<le> sub_relevance_score x \<and> sub_relevance_score x \<le> 1)"
proof -
  let ?sentences = "split_sentences (content (section_of scored_section))"
  obtain scores where sc: "score_all ?sentences persona job = Inr scores"
      and b: "\<forall>p\<in>set scores. 0 \<le> snd p \<and> snd p \<le> 1"
    using score_all_bounded [of ?sentences persona job] sentences_have_words by blast
  have "set (py_slice_to max_subsections (sort_key (\<lambda>x. - snd x) scores)) \<subseteq> set scores"
    using set_py_slice_to [of max_subsections "sort_key (\<lambda>x. - snd x) scores"] by simp
  with b have "\<forall>p\<in>set (py_slice_to max_subsections (sort_key (\<lambda>x. - snd x) scores)).
      0 \<le> snd p \<and> snd p \<le> 1"
    by blast
  then show ?thesis
    by (auto simp: extract_section_subsections_def Let_def sc split: prod.splits)
qed

lemma collect_subsections_bounded:
  "\<exists>subs. collect_subsections scored persona job max_subsections = Inr subs
     \<and> (\<forall>x\<in>set subs. 0 \<le> sub_relevance_score x \<and> sub_relevance_score x \<le> 1)"
proof (induction scored)
  case Nil
  show ?case by simp
next
  case (Cons a rest)
  obtain subs1 where a: "extract_section_subsections a persona job max_subsections = Inr subs1"
      and b1: "\<forall>x\<in>set subs1. 0 \<le> sub_relevance_score x \<and> sub_relevance_score x \<le> 1"
    using extract_section_subsections_bounded by blast
  from Cons.IH obtain subs2 where r: "collect_subsections rest persona job max_subsections = Inr subs2"
      and b2: "\<forall>x\<in>set subs2. 0 \<le> sub_relevance_score x \<and> sub_relevance_score x \<le> 1"
    by blast
  show ?case using a b1 r b2 by auto
qed

lemma extract_subsections_bounded:
  "\<exists>subs. extract_subsections scored persona job max_subsections = Inr subs
     \<and> (\<forall>x\<in>set subs. 0 \<le> sub_relevance_score x \<and> sub_relevance_score x \<le> 1)"
proof -
  obtain subs where "collect_subsections scored persona job max_subsections = Inr subs"
      and "\<forall>x\<in>set subs. 0 \<le> sub_relevance_score x \<and> sub_relevance_score x \<le> 1"
    using collect_subsections_bounded by blast
  then show ?thesis by (simp add: extract_subsections_def)
qed

text \<open>
  Claim C9. For a sentence of at least one word, the sentence score is 0.6 *
  keyword\_density + 0.2 * length\_score + 0.2 * quality\_score, with keyword\_density =
  min(1, hits / word\_count * 2), length\_score 1.0 for 5 to 30 words, 0.5 below 5 words
  and max(0.1, 1.0 - (words - 30) * 0.02) above 30 words, and quality\_score 0.3 or 0; the
  score lies in [0,1]. Consequently \<open>extract_subsections\<close> always returns a list, and
  the relevance score of every SubSection in it lies in [0,1].
\<close>

theorem sentence_score_formula:
  "(1 \<le> length (py_split sentence) \<longrightarrow>
      (let K = persona_keywords persona \<union> priority_keywords job;
           word_count = length (py_split sentence);
           hits = card {k \<in> K. py_in k (lower sentence)};
           keyword_density = min 1 (real hits / real word_count * 2);
           length_score =
             (if 5 \<le> word_count \<and> word_count \<le> 30 then 1
              else if word_count < 5 then 0.5
              else max 0.1 (1 - (real word_count - 30) * 0.02));
           quality_score =
             (if any_in [''result'', ''finding'', ''conclusion'', ''analysis'', ''method'',
                         ''approach''] (lower sentence) then 0.3 else 0);
           score = 0.6 * keyword_density + 0.2 * length_score + 0.2 * quality_score
       in score_sentence sentence persona job = Inr score \<and> 0 \<le> score \<and> score \<le> 1))
   \<and> (\<exists>subsections.
         extract_subsections scored persona job max_subsections = Inr subsections
       \<and> (\<forall>x\<in>set subsections. 0 \<le> sub_relevance_score x \<and> sub_relevance_score x \<le> 1))"
proof -
  have ne: "py_split sentence \<noteq> []" if "1 \<le> length (py_split sentence)"
    using that by (cases "py_split sentence") simp_all
  have "\<exists>score. score_sentence sentence persona job = Inr score \<and> 0 \<le> score \<and> score \<le> 1"
    if "1 \<le> length (py_split sentence)"
    using score_sentence_bounded [OF ne [OF that]] .
  moreover have "score_sentence sentence persona job =
     Inr (0.6 * min 1 (real (card {k \<in> persona_keywords persona \<union> priority_keywords job.
                                     py_in k (lower sentence)})
                         / real (length (py_split sentence)) * 2)
          + 0.2 * (if 5 \<le> length (py_split sentence) \<and> length (py_split sentence) \<le> 30 then 1
                   else if length (py_split sentence) < 5 then 0.5
                   else max 0.1 (1 - (real (length (py_split sentence)) - 30) * 0.02))
          + 0.2 * (if any_in [''result'', ''finding'', ''conclusion'', ''analysis'', ''method'',
                              ''approach''] (lower sentence) then 0.3 else 0))"
    if "1 \<le> length (py_split sentence)"
    using score_sentence_formula [OF ne [OF that]] .
  ultimately show ?thesis
    unfolding Let_def using extract_subsections_bounded [of scored persona job max_subsections]
    by (intro conjI impI) auto
qed

text \<open>
  Claim C4, amended. After the split of a section body on runs of sentence-ending
  punctuation, a trimmed fragment is retained if and only if it has more than 20
  characters, so a fragment of exactly 20 characters after trimming is discarded; for a
  section whose whole body is shorter than 20 characters after trimming, no SubSection is
  produced and no error is returned.
\<close>

theorem sentence_filter_threshold:
  "(\<forall>fragment\<in>set (re_split_sentences body).
      (py_strip fragment \<in> set (split_sentences body)) = (20 < length (py_strip fragment)))
   \<and> (content (section_of scored_section) = body \<and> length (py_strip body) < 20 \<longrightarrow>
        extract_section_subsections scored_section persona job max_subsections = Inr [])"
proof -
  have "(py_strip f \<in> set (split_sentences body)) = (20 < length (py_strip f))"
    if "f \<in> set (re_split_sentences body)" for f
    using that by (auto simp: split_sentences_def)
  moreover have "extract_section_subsections scored_section persona job max_subsections = Inr []"
    if "content (section_of scored_section) = body" "length (py_strip body) < 20"
    using that short_body_no_sentences [of body]
    by (simp add: extract_section_subsections_def)
  ultimately show ?thesis by blast
qed

lemma example_sentence_words: "length (py_split example_sentence) = 7"
  by code_simp

lemma example_sentence_score:
  "score_sentence example_sentence example_persona example_job = Inr (151 / 350)"
  by code_simp

text \<open>
  A sentence of seven words with one keyword hit and a quality indicator: 0.6 * 2/7 +
  0.2 * 1 + 0.2 * 0.3 = 151/350.
\<close>

theorem sentence_score_formula_witness:
  "1 \<le> length (py_split example_sentence)
   \<and> (\<exists>score. score_sentence example_sentence example_persona example_job = Inr score
         \<and> 0 \<le> score \<and> score \<le> 1)
   \<and> score_sentence example_sentence example_persona example_job = Inr (151 / 350)
   \<and> (\<exists>subsections.
         extract_subsections [sentence_scored] example_persona example_job 5 = Inr subsections
       \<and> (\<forall>x\<in>set subsections. 0 \<le> sub_relevance_score x \<and> sub_relevance_score x \<le> 1))"
proof -
  note T = sentence_score_formula [of example_sentence example_persona example_job
      "[sentence_scored]" 5]
  have h: "1 \<le> length (py_split example_sentence)"
    by (simp add: example_sentence_words)
  from T h have b: "\<exists>score. score_sentence example_sentence example_persona example_job = Inr score
         \<and> 0 \<le> score \<and> score \<le> 1"
    unfolding Let_def by blast
  from T have c: "\<exists>subsections.
         extract_subsections [sentence_scored] example_persona example_job 5 = Inr subsections
       \<and> (\<forall>x\<in>set subsections. 0 \<le> sub_relevance_score x \<and> sub_relevance_score x \<le> 1)"
    by (rule conjunct2)
  from h b example_sentence_score c show ?thesis by (intro conjI)
qed

lemma example_fragments:
  "re_split_sentences (content sentence_section) = [example_sentence, '' Short'', []]"
  by code_simp

lemma example_sentence_long: "20 < length (py_strip example_sentence)"
  by code_simp

lemma short_fragment: "\<not> 20 < length (py_strip '' Short'')"
  by code_simp

lemma short_body: "length (py_strip (content (section_of short_scored))) < 20"
  by code_simp

text \<open>
  A body with a fragment of 42 characters and one of 5, and a body of 10 characters.
\<close>

theorem sentence_filter_threshold_witness:
  "example_sentence \<in> set (re_split_sentences (content sentence_section))
   \<and> 20 < length (py_strip example_sentence)
   \<and> py_strip example_sentence \<in> set (split_sentences (content sentence_section))
   \<and> '' Short'' \<in> set (re_split_sentences (content sentence_section))
   \<and> py_strip '' Short'' \<notin> set (split_sentences (content sentence_section))
   \<and> length (py_strip (content (section_of short_scored))) < 20
   \<and> extract_section_subsections short_scored example_persona example_job 5 = Inr []"
proof -
  note T1 = sentence_filter_threshold [where body = "content sentence_section"]
  note T2 = sentence_filter_threshold [where body = "content (section_of short_scored)"
      and scored_section = short_scored and persona = example_persona and job = example_job
      and max_subsections = 5]
  have m1: "example_sentence \<in> set (re_split_sentences (content sentence_section))"
    and m2: "'' Short'' \<in> set (re_split_sentences (content sentence_section))"
    by (simp_all add: example_fragments)
  from T1 m1 example_sentence_long
  have r1: "py_strip example_sentence \<in> set (split_sentences (content sentence_section))"
    by blast
  from T1 m2 short_fragment
  have r2: "py_strip '' Short'' \<notin> set (split_sentences (content sentence_section))"
    by blast
  from T2 short_body
  have r3: "extract_section_subsections short_scored example_persona example_job 5 = Inr []"
    by blast
  from m1 example_sentence_long r1 m2 r2 short_body r3 show ?thesis by (intro conjI)
qed

text \<open>
  The fragment ``Results are positive'' has exactly 20 characters and is discarded.
\<close>

theorem twenty_characters_are_discarded:
  "''Results are positive'' \<in> set (re_split_sentences ''Results are positive.'')
   \<and> length (py_strip ''Results are positive'') = 20
   \<and> py_strip ''Results are positive'' \<notin> set (split_sentences ''Results are positive.'')"
  by code_simp

section \<open>Profile extractor: defaults\<close>

lemma first_search_None:
  "\<forall>pattern\<in>set patterns. re_search re pattern True text = None
     \<Longrightarrow> first_search re patterns text = None"
  by (induction patterns) simp_all

lemma first_matching_key_fallback:
  "\<not> list_ex (\<lambda>(key, indicators). any_in indicators d) table
     \<Longrightarrow> first_matching_key table d fallback = fallback"
  by (induction table d fallback rule: first_matching_key.induct) simp_all

lemma first_matching_key_range:
  "first_matching_key table d fallback \<in> insert fallback (set (map fst table))"
  by (induction table d fallback rule: first_matching_key.induct) auto

lemma any_in_empty_text: "any_in ks [] = list_ex (\<lambda>k. k = []) ks"
  by (simp add: any_in_def)

lemma empty_text_skill: "determine_skill_level [] = ''intermediate''"
  by code_simp

lemma empty_text_deliverable: "determine_deliverable_type [] = ''analysis''"
  by code_simp

lemma empty_text_criteria:
  "define_success_criteria [] =
     [''Relevant content extraction'', ''Clear organization'', ''Actionable insights'']"
  by code_simp

lemma empty_text_domains:
  "filter (\<lambda>(domain, kws). any_in kws (lower [])) analyzer_domain_keywords = []"
  by code_simp

lemma default_criteria:
  assumes "\<not> any_in [''comprehensive'', ''methodology'', ''method'', ''performance'',
                      ''benchmark'', ''result'', ''trend'', ''analysis'', ''compare'']
               (lower text)"
  shows "define_success_criteria text =
     [''Relevant content extraction'', ''Clear organization'', ''Actionable insights'']"
  using assms by (simp add: define_success_criteria_def any_in_def Let_def)

text \<open>
  Claim C5. \<open>analyze_persona\<close> and \<open>analyze_job\<close> have no failing branch. When no role
  pattern matches, the role is the first three whitespace-delimited tokens, or the
  trimmed string when there are fewer than two tokens; when no indicator occurs, the skill
  level is \<open>intermediate\<close> and the deliverable type is \<open>analysis\<close>; when no trigger word
  occurs, the success criteria are the fixed three-item list. The skill level and the
  deliverable type are always one of their enumerated values and the success criteria
  are never empty. On the empty string, where a matcher finds nothing, both profiles
  consist of the defaults and empty keyword sets.
\<close>

theorem analyzers_fall_back_to_defaults:
  "((\<forall>pattern\<in>set role_patterns. re_search re pattern True text = None) \<longrightarrow>
      role (analyze_persona re text) =
        (if 2 \<le> length (py_split text) then py_join '' '' (take 3 (py_split text))
         else py_strip text))
   \<and> (\<not> list_ex (\<lambda>(level, indicators). any_in indicators (lower text)) skill_indicators \<longrightarrow>
        skill_level (analyze_persona re text) = ''intermediate'')
   \<and> (\<not> list_ex (\<lambda>(job_type, indicators). any_in indicators (lower text)) job_types \<longrightarrow>
        deliverable_type (analyze_job re text) = ''analysis'')
   \<and> (\<not> any_in [''comprehensive'', ''methodology'', ''method'', ''performance'',
                  ''benchmark'', ''result'', ''trend'', ''analysis'', ''compare'']
           (lower text) \<longrightarrow>
        success_criteria (analyze_job re text) =
          [''Relevant content extraction'', ''Clear organization'', ''Actionable insights''])
   \<and> skill_level (analyze_persona re text)
        \<in> {''beginner'', ''intermediate'', ''advanced'', ''expert''}
   \<and> deliverable_type (analyze_job re text)
        \<in> {''analysis'', ''synthesis'', ''review'', ''preparation'', ''identification'',
            ''learning''}
   \<and> success_criteria (analyze_job re text) \<noteq> []
   \<and> ((\<forall>pattern ignorecase. re_search re pattern ignorecase [] = None
                             \<and> re_findall re pattern ignorecase [] = [])
        \<and> (\<forall>pattern. re_match_group1 re pattern [] = None) \<longrightarrow>
        analyze_persona re [] =
          \<lparr>role = [], expertise_domains = [], focus_areas = [],
           skill_level = ''intermediate'', persona_keywords = {}\<rparr>
      \<and> analyze_job re [] =
          \<lparr>primary_goal = [], information_needs = [], deliverable_type = ''analysis'',
           priority_keywords = {},
           success_criteria =
             [''Relevant content extraction'', ''Clear organization'',
              ''Actionable insights'']\<rparr>)"
proof -
  have role_default: "role (analyze_persona re text) =
        (if 2 \<le> length (py_split text) then py_join '' '' (take 3 (py_split text))
         else py_strip text)"
    if "\<forall>pattern\<in>set role_patterns. re_search re pattern True text = None"
    using first_search_None [OF that]
    by (simp add: analyze_persona_def extract_role_def Let_def)
  have skill_default: "skill_level (analyze_persona re text) = ''intermediate''"
    if "\<not> list_ex (\<lambda>(level, indicators). any_in indicators (lower text)) skill_indicators"
    using first_matching_key_fallback [OF that]
    by (simp add: analyze_persona_def determine_skill_level_def Let_def)
  have type_default: "deliverable_type (analyze_job re text) = ''analysis''"
    if "\<not> list_ex (\<lambda>(job_type, indicators). any_in indicators (lower text)) job_types"
    using first_matching_key_fallback [OF that]
    by (simp add: analyze_job_def determine_deliverable_type_def Let_def)
  have criteria_default: "success_criteria (analyze_job re text) =
          [''Relevant content extraction'', ''Clear organization'', ''Actionable insights'']"
    if "\<not> any_in [''comprehensive'', ''methodology'', ''method'', ''performance'',
                  ''benchmark'', ''result'', ''trend'', ''analysis'', ''compare'']
           (lower text)"
    using default_criteria [OF that] by (simp add: analyze_job_def Let_def)
  have skill_range: "skill_level (analyze_persona re text)
        \<in> {''beginner'', ''intermediate'', ''advanced'', ''expert''}"
    using first_matching_key_range [of skill_indicators "lower text" "''intermediate''"]
    by (simp add: analyze_persona_def determine_skill_level_def Let_def skill_indicators_def)
  have type_range: "deliverable_type (analyze_job re text)
        \<in> {''analysis'', ''synthesis'', ''review'', ''preparation'', ''identification'',
            ''learning''}"
    using first_matching_key_range [of job_types "lower text" "''analysis''"]
    by (simp add: analyze_job_def determine_deliverable_type_def Let_def job_types_def)
  have criteria_nonempty: "success_criteria (analyze_job re text) \<noteq> []"
    by (simp add: analyze_job_def define_success_criteria_def Let_def)
  have empty_persona: "analyze_persona re [] =
          \<lparr>role = [], expertise_domains = [], focus_areas = [],
           skill_level = ''intermediate'', persona_keywords = {}\<rparr>"
    if a: "\<forall>pattern ignorecase. re_search re pattern ignorecase [] = None
                             \<and> re_findall re pattern ignorecase [] = []"
  proof -
    have "first_search re role_patterns [] = None"
      using a by (intro first_search_None) simp
    then have r: "extract_role re [] = []"
      by (simp add: extract_role_def py_split_def py_strip_def)
    have d: "extract_expertise_domains re [] = []"
      using a empty_text_domains by (simp add: extract_expertise_domains_def Let_def)
    have f: "extract_focus_areas re [] = []"
      using a by (simp add: extract_focus_areas_def)
    have k: "generate_persona_keywords re [] [] = {}"
      using a by (simp add: generate_persona_keywords_def lower_def)
    show ?thesis
      by (simp add: analyze_persona_def r d f k empty_text_skill)
  qed
  have empty_job: "analyze_job re [] =
          \<lparr>primary_goal = [], information_needs = [], deliverable_type = ''analysis'',
           priority_keywords = {},
           success_criteria =
             [''Relevant content extraction'', ''Clear organization'',
              ''Actionable insights'']\<rparr>"
    if a: "\<forall>pattern ignorecase. re_search re pattern ignorecase [] = None
                             \<and> re_findall re pattern ignorecase [] = []"
      and b: "\<forall>pattern. re_match_group1 re pattern [] = None"
  proof -
    have g: "extract_primary_goal re [] = []"
      using b by (simp add: extract_primary_goal_def py_strip_def)
    have n: "extract_information_needs re [] = []"
      using a by (simp add: extract_information_needs_def)
    have k: "extract_priority_keywords re [] = {}"
      using a by (simp add: extract_priority_keywords_def lower_def)
    show ?thesis
      by (simp add: analyze_job_def g n k empty_text_deliverable empty_text_criteria)
  qed
  from role_default skill_default type_default criteria_default skill_range type_range
    criteria_nonempty empty_persona empty_job
  show ?thesis by (intro conjI impI) (elim conjE, assumption | rule | simp)+
qed

lemma unmatched_role:
  "(if 2 \<le> length (py_split unmatched_text) then py_join '' '' (take 3 (py_split unmatched_text))
    else py_strip unmatched_text) = ''hello world again''"
  by code_simp

lemma unmatched_skill:
  "\<not> list_ex (\<lambda>(level, indicators). any_in indicators (lower unmatched_text)) skill_indicators"
  by code_simp

lemma unmatched_type:
  "\<not> list_ex (\<lambda>(job_type, indicators). any_in indicators (lower unmatched_text)) job_types"
  by code_simp

lemma unmatched_criteria:
  "\<not> any_in [''comprehensive'', ''methodology'', ''method'', ''performance'',
              ''benchmark'', ''result'', ''trend'', ''analysis'', ''compare'']
       (lower unmatched_text)"
  by code_simp

text \<open>
  A text without any indicator, with a matcher that finds nothing, and the empty string.
\<close>

theorem analyzers_fall_back_to_defaults_witness:
  "role (analyze_persona no_match_engine unmatched_text) = ''hello world again''
   \<and> \<not> list_ex (\<lambda>(level, indicators). any_in indicators (lower unmatched_text)) skill_indicators
   \<and> skill_level (analyze_persona no_match_engine unmatched_text) = ''intermediate''
   \<and> \<not> list_ex (\<lambda>(job_type, indicators). any_in indicators (lower unmatched_text)) job_types
   \<and> deliverable_type (analyze_job no_match_engine unmatched_text) = ''analysis''
   \<and> success_criteria (analyze_job no_match_engine unmatched_text) =
       [''Relevant content extraction'', ''Clear organization'', ''Actionable insights'']
   \<and> analyze_persona no_match_engine [] =
       \<lparr>role = [], expertise_domains = [], focus_areas = [],
        skill_level = ''intermediate'', persona_keywords = {}\<rparr>
   \<and> analyze_job no_match_engine [] =
       \<lparr>primary_goal = [], information_needs = [], deliverable_type = ''analysis'',
        priority_keywords = {},
        success_criteria =
          [''Relevant content extraction'', ''Clear organization'', ''Actionable insights'']\<rparr>"
proof -
  note T = analyzers_fall_back_to_defaults [of no_match_engine unmatched_text]
  have h1: "\<forall>pattern\<in>set role_patterns. re_search no_match_engine pattern True unmatched_text = None"
    by (simp add: no_match_engine_def)
  have h5: "(\<forall>pattern ignorecase. re_search no_match_engine pattern ignorecase [] = None
                             \<and> re_findall no_match_engine pattern ignorecase [] = [])
        \<and> (\<forall>pattern. re_match_group1 no_match_engine pattern [] = None)"
    by (simp add: no_match_engine_def)
  from T h1 have "role (analyze_persona no_match_engine unmatched_text) =
        (if 2 \<le> length (py_split unmatched_text) then py_join '' '' (take 3 (py_split unmatched_text))
         else py_strip unmatched_text)"
    by blast
  then have r1: "role (analyze_persona no_match_engine unmatched_text) = ''hello world again''"
    by (simp only: unmatched_role)
  from T unmatched_skill
  have r2: "skill_level (analyze_persona no_match_engine unmatched_text) = ''intermediate''"
    by blast
  from T unmatched_type
  have r3: "deliverable_type (analyze_job no_match_engine unmatched_text) = ''analysis''"
    by blast
  from T unmatched_criteria
  have r4: "success_criteria (analyze_job no_match_engine unmatched_text) =
       [''Relevant content extraction'', ''Clear organization'', ''Actionable insights'']"
    by blast
  from T h5
  have r5: "analyze_persona no_match_engine [] =
       \<lparr>role = [], expertise_domains = [], focus_areas = [],
        skill_level = ''intermediate'', persona_keywords = {}\<rparr>"
    and r6: "analyze_job no_match_engine [] =
       \<lparr>primary_goal = [], information_needs = [], deliverable_type = ''analysis'',
        priority_keywords = {},
        success_criteria =
          [''Relevant content extraction'', ''Clear organization'', ''Actionable insights'']\<rparr>"
    by blast+
  from r1 unmatched_skill r2 unmatched_type r3 r4 r5 r6 show ?thesis by (intro conjI)
qed

end
